theory Spec2Isabelle
  imports Complex_Main "HOL-Library.List_Lexorder" "HOL-Library.Char_ord"
begin

section \<open>Exceptions, data frames, calls and traces\<close>

text \<open>
  The repository is two Jupyter notebooks. The deployment notebook calls the SageMaker
  SDK and boto3; its only loop is the polling loop of the clean-up cell. The processing
  notebook writes a pandas script and runs it as a SageMaker processing job. Each call
  into an SDK either returns or raises, and what it does is decided by the remote
  service, so the model takes the result of every call from an environment and records
  the calls in a trace.

  A Python exception is a value of \<open>exn\<close>. \<open>ClientError code\<close> is botocore's
  \<open>ClientError\<close> whose \<open>e.response['Error']['Code']\<close> is \<open>code\<close>; boto3 raises
  the modelled class \<open>client.exceptions.ResourceInUse\<close> for exactly the code
  \<open>ResourceInUse\<close>. \<open>OtherError name\<close> is an exception of any other class.
\<close>

datatype exn =
    ClientError string
  | IndexError
  | KeyError string
  | ValueError
  | TypeError
  | OtherError string

text \<open>
  A pandas \<open>DataFrame\<close>: its columns in order, each with its name and its values, one
  per row. A column has a dtype, and the dtype decides what a value can be: a numeric
  column (\<open>int64\<close>, \<open>float64\<close>) holds numbers, an \<open>object\<close> column holds strings, a
  \<open>datetime64\<close> column holds timestamps (kept as text), a \<open>bool\<close> column holds
  booleans and has no missing value. \<open>None\<close> is the missing value (\<open>NaN\<close>, \<open>NaT\<close>).
  Numbers are rationals: every float is one, and the rounding of float arithmetic is
  not modelled.
\<close>

datatype column =
    Numbers "rat option list"
  | Objects "string option list"
  | Datetimes "string option list"
  | Bools "bool list"

type_synonym frame = "(string \<times> column) list"

text \<open>A value of a frame, whatever the dtype of its column.\<close>

datatype cell = Null | Number rat | Text string | Timestamp string | Boolean bool

datatype call =
    Session
  | Get_execution_role
  | Default_bucket
  | Boto3_session_region_name
  | Upload_data string string string
  | Image_uris_retrieve "string list"
  | Model_create string string string string
  | Boto3_client string
  | Boto3_resource string
  | Create_model_package_group string string
  | Model_register string string
  | List_model_packages string string
  | Create_endpoint_config string string
  | Create_endpoint string string
  | Invoke_endpoint string string string
  | Delete_endpoint string
  | Describe_endpoint string
  | Delete_endpoint_config string
  | Read_csv string
  | Writefile string
  | Upload_file string string string
  | Processor_run string string string string string
  | Df_drop "string list"
  | To_datetime string
  | Dropna nat
  | Select_dtypes string
  | Fit_transform "string list"
  | Groupby_mean string string
  | Series_map string string
  | Get_dummies "string list"
  | To_csv string

text \<open>
  An event of a run: a call with the exception it raised (\<open>None\<close> when it returned), a
  line printed to the cell's output, a frame printed there, or \<open>time.sleep(s)\<close>.
\<close>

datatype event =
    Call call "exn option"
  | Print string
  | Print_frame frame
  | Sleep nat

text \<open>
  How a piece of notebook code ends: it completes with a value, an exception leaves it,
  or (for the polling loop only) it is still running after the passes it was given.
\<close>

datatype 'a outcome = Done 'a | Raised exn | Running

type_synonym 'a io = "'a outcome \<times> event list"

text \<open>
  Sequencing: \<open>and_then m f\<close> runs \<open>m\<close> and, when it completes, \<open>f\<close> on its value; an
  exception raised by \<open>m\<close> ends the whole. \<open>sdk c r\<close> is the call \<open>c\<close> whose result the
  environment gives as \<open>r\<close>. \<open>try_except m h\<close> is \<open>try: m except ...\<close>: \<open>h e\<close> is the
  handler's body when a clause matches \<open>e\<close>, and \<open>None\<close> when none does.
\<close>

definition and_then :: "'a io \<Rightarrow> ('a \<Rightarrow> 'b io) \<Rightarrow> 'b io" where
  "and_then m f =
     (case m of
        (Done a, tr) \<Rightarrow> (case f a of (r, tr') \<Rightarrow> (r, tr @ tr'))
      | (Raised e, tr) \<Rightarrow> (Raised e, tr)
      | (Running, tr) \<Rightarrow> (Running, tr))"

definition sdk :: "call \<Rightarrow> exn + 'a \<Rightarrow> 'a io" where
  "sdk c r =
     (case r of
        Inr a \<Rightarrow> (Done a, [Call c None])
      | Inl e \<Rightarrow> (Raised e, [Call c (Some e)]))"

definition print_line :: "string \<Rightarrow> unit io" where
  "print_line s = (Done (), [Print s])"

definition print_frame :: "frame \<Rightarrow> unit io" where
  "print_frame df = (Done (), [Print_frame df])"

definition return :: "'a \<Rightarrow> 'a io" where
  "return a = (Done a, [])"

definition try_except :: "'a io \<Rightarrow> (exn \<Rightarrow> 'a io option) \<Rightarrow> 'a io" where
  "try_except m h =
     (case m of
        (Raised e, tr) \<Rightarrow>
          (case h e of
             None \<Rightarrow> (Raised e, tr)
           | Some m' \<Rightarrow> (case m' of (r, tr') \<Rightarrow> (r, tr @ tr')))
      | (Done a, tr) \<Rightarrow> (Done a, tr)
      | (Running, tr) \<Rightarrow> (Running, tr))"

text \<open>\<open>xs[0]\<close>: Python raises \<open>IndexError\<close> on an empty list.\<close>

definition first_item :: "'a list \<Rightarrow> 'a io" where
  "first_item xs = (case xs of [] \<Rightarrow> (Raised IndexError, []) | x # _ \<Rightarrow> (Done x, []))"

text \<open>The calls of a trace, in order.\<close>

fun sdk_calls :: "event list \<Rightarrow> call list" where
  "sdk_calls [] = []"
| "sdk_calls (Call c _ # tr) = c # sdk_calls tr"
| "sdk_calls (_ # tr) = sdk_calls tr"


section \<open>The polling loop of the clean-up cell\<close>

text \<open>
  \<^verbatim>\<open>
  while True:
      try:
          sagemaker_client.describe_endpoint(EndpointName=endpoint_name)
          print("Endpoint is still being deleted. Waiting...")
          time.sleep(30)
      except sagemaker_client.exceptions.ClientError as e:
          if e.response['Error']['Code'] == 'ValidationException':
              print("Endpoint deleted successfully.")
              break
  \<close>
  \<open>poll_body\<close> is one pass through the loop body, given what \<open>describe_endpoint\<close>
  did: it says how the pass ends and what it did. A \<open>ClientError\<close> with another code
  is caught by the \<open>except\<close> clause, whose \<open>if\<close> has no \<open>else\<close>, so the pass ends
  and the loop goes round again. An exception of another class is not caught.
\<close>

datatype ctl = Continue | Break | Raise exn

fun poll_body :: "string \<Rightarrow> exn + unit \<Rightarrow> ctl \<times> event list" where
  "poll_body endpoint_name (Inr _) =
     (Continue, [Call (Describe_endpoint endpoint_name) None,
                 Print ''Endpoint is still being deleted. Waiting...'',
                 Sleep 30])"
| "poll_body endpoint_name (Inl (ClientError code)) =
     (if code = ''ValidationException''
      then (Break, [Call (Describe_endpoint endpoint_name) (Some (ClientError code)),
                    Print ''Endpoint deleted successfully.''])
      else (Continue, [Call (Describe_endpoint endpoint_name) (Some (ClientError code))]))"
| "poll_body endpoint_name (Inl e) =
     (Raise e, [Call (Describe_endpoint endpoint_name) (Some e)])"

text \<open>
  The loop itself. \<open>d j\<close> is what the \<open>j\<close>-th \<open>describe_endpoint\<close> call of the run
  does, \<open>k\<close> is the index of the next call, and the first argument after \<open>d\<close> bounds
  the number of passes: \<open>while True\<close> need not end, and a run that has not left the loop
  after that many passes is \<open>Running\<close>.
\<close>

fun poll_loop :: "string \<Rightarrow> (nat \<Rightarrow> exn + unit) \<Rightarrow> nat \<Rightarrow> nat \<Rightarrow> unit outcome \<times> event list" where
  "poll_loop endpoint_name d 0 k = (Running, [])"
| "poll_loop endpoint_name d (Suc n) k =
     (case poll_body endpoint_name (d k) of
        (Continue, tr) \<Rightarrow>
          (case poll_loop endpoint_name d n (Suc k) of (r, tr') \<Rightarrow> (r, tr @ tr'))
      | (Break, tr) \<Rightarrow> (Done (), tr)
      | (Raise e, tr) \<Rightarrow> (Raised e, tr))"

text \<open>The exception a call raised, as the trace records it.\<close>

definition raised :: "exn + 'a \<Rightarrow> exn option" where
  "raised r = (case r of Inl e \<Rightarrow> Some e | Inr _ \<Rightarrow> None)"

fun is_describe :: "event \<Rightarrow> bool" where
  "is_describe (Call (Describe_endpoint _) _) = True"
| "is_describe _ = False"

fun is_describe_ok :: "event \<Rightarrow> bool" where
  "is_describe_ok (Call (Describe_endpoint _) None) = True"
| "is_describe_ok _ = False"

text \<open>
  \<open>slept_between tr\<close>: every \<open>describe_endpoint\<close> call of the trace that is followed
  by another one has a \<open>time.sleep(30)\<close> before the next one.
  \<open>slept_after_success\<close> asks the same of the calls that returned only.
\<close>

fun slept_between :: "event list \<Rightarrow> bool" where
  "slept_between [] = True"
| "slept_between (e # tr) =
     ((if is_describe e \<and> list_ex is_describe tr
       then Sleep 30 \<in> set (takeWhile (\<lambda>x. \<not> is_describe x) tr) else True)
      \<and> slept_between tr)"

fun slept_after_success :: "event list \<Rightarrow> bool" where
  "slept_after_success [] = True"
| "slept_after_success (e # tr) =
     ((if is_describe_ok e \<and> list_ex is_describe tr
       then Sleep 30 \<in> set (takeWhile (\<lambda>x. \<not> is_describe x) tr) else True)
      \<and> slept_after_success tr)"

text \<open>
  \<open>waits_and_calls_again tr\<close>: every \<open>describe_endpoint\<close> call of the trace that
  returned is followed at once by the loop's message and \<open>time.sleep(30)\<close>, and what
  comes after the sleep, when the trace does not stop there, is a \<open>describe_endpoint\<close>
  call. \<open>call_outcomes tr\<close> is what each call of the trace raised, in order.
\<close>

fun waits_and_calls_again :: "event list \<Rightarrow> bool" where
  "waits_and_calls_again [] = True"
| "waits_and_calls_again (e # tr) =
     ((if is_describe_ok e
       then take 2 tr = [Print ''Endpoint is still being deleted. Waiting...'', Sleep 30]
            \<and> list_all is_describe (take 1 (drop 2 tr))
       else True)
      \<and> waits_and_calls_again tr)"

fun call_outcomes :: "event list \<Rightarrow> exn option list" where
  "call_outcomes [] = []"
| "call_outcomes (Call _ x # tr) = x # call_outcomes tr"
| "call_outcomes (_ # tr) = call_outcomes tr"

section \<open>The deployment notebook\<close>

text \<open>
  What the services answer. A field holds the result of the call of that name: \<open>Inr\<close>
  the value it returns, \<open>Inl\<close> the exception it raises. \<open>get_execution_role\<close> is
  called twice and \<open>describe_endpoint\<close> once per pass of the polling loop, so these take
  the index of the call. \<open>model_register\<close> returns the ARN of the model package,
  \<open>list_model_packages\<close> the \<open>ModelPackageArn\<close> of each entry of
  \<open>ModelPackageSummaryList\<close> in order, \<open>create_endpoint_config\<close> the
  \<open>EndpointConfigArn\<close>, \<open>invoke_endpoint\<close> the decoded body of the response.
\<close>

record cloud =
  session :: "exn + unit"
  get_execution_role :: "nat \<Rightarrow> exn + string"
  default_bucket :: "exn + string"
  boto3_session_region_name :: "exn + string"
  boto_region_name :: string
  upload_data :: "exn + string"
  image_uris_retrieve :: "exn + string"
  model_create :: "exn + unit"
  boto3_client :: "string \<Rightarrow> exn + unit"
  boto3_resource :: "string \<Rightarrow> exn + unit"
  create_model_package_group :: "exn + unit"
  model_register :: "exn + string"
  list_model_packages :: "exn + string list"
  create_endpoint_config :: "exn + string"
  create_endpoint :: "exn + unit"
  invoke_endpoint :: "exn + string"
  delete_endpoint :: "exn + unit"
  describe_endpoint :: "nat \<Rightarrow> exn + unit"
  delete_endpoint_config :: "exn + unit"
  read_csv :: "string \<Rightarrow> exn + frame"
  writefile :: "exn + unit"
  upload_file :: "exn + unit"
  processor_run :: "exn + unit"

text \<open>The constants the notebook assigns.\<close>

definition s3_prefix :: string where
  "s3_prefix = ''/model''"

definition local_file_path :: string where
  "local_file_path = ''model.tar.gz''"

definition model_name :: string where
  "model_name = ''house-prices''"

definition model_package_group_name :: string where
  "model_package_group_name = ''house-price-prediction-group''"

definition model_package_group_description :: string where
  "model_package_group_description =
     ''KodeKloud Demystifying SageMaker model package group for house price prediction''"

definition model_approval_status :: string where
  "model_approval_status = ''PendingManualApproval''"

definition endpoint_config_name :: string where
  "endpoint_config_name = ''house-price-endpoint-config''"

definition endpoint_name :: string where
  "endpoint_name = ''house-price-prediction-endpoint''"

definition input_data :: string where
  "input_data = ''51.6215527,-0.2466031,2.0,6.0,517.0,3.0,289000.0,27.39336492890996,1055000.0,37.01298701298701,285000.0,1354000.0,1.0,0.0,1.0,0.0,0.0,0.0,0.0,0.0,0.0,0.0,0.0,0.0,0.0,0.0,0.0,0.0,0.0,0.0,0.0,1.0,0.0,0.0,0.0,0.0,0.0,0.0,0.0,1.0,0.0,0.0,0.0,1.0,0.0,0.0''"

text \<open>
  Step 1, imports and role: \<open>Session()\<close>, \<open>get_execution_role()\<close>,
  \<open>default_bucket()\<close>, \<open>print(role)\<close>. The cell leaves \<open>s3_bucket\<close> to the next.
\<close>

definition import_libraries :: "cloud \<Rightarrow> string io" where
  "import_libraries env =
     and_then (sdk Session (session env)) (\<lambda>_.
     and_then (sdk Get_execution_role (get_execution_role env 0)) (\<lambda>role.
     and_then (sdk Default_bucket (default_bucket env)) (\<lambda>s3_bucket.
     and_then (print_line role) (\<lambda>_.
     return s3_bucket))))"

text \<open>
  Step 2, the model: \<open>upload_data\<close>, \<open>image_uris.retrieve\<close>, then
  \<open>Model(..., role=get_execution_role(), name=model_name)\<close> and \<open>model.create()\<close>.
\<close>

definition model_artifact :: "string \<Rightarrow> string" where
  "model_artifact s3_bucket = ''s3://'' @ s3_bucket @ ''/'' @ s3_prefix @ ''/model.tar.gz''"

definition create_model :: "cloud \<Rightarrow> string \<Rightarrow> unit io" where
  "create_model env s3_bucket =
     and_then (sdk (Upload_data local_file_path s3_bucket s3_prefix) (upload_data env)) (\<lambda>s3_uri.
     and_then (print_line (''File uploaded to: '' @ s3_uri)) (\<lambda>_.
     and_then (sdk (Image_uris_retrieve [''linear-learner'', boto_region_name env])
                 (image_uris_retrieve env)) (\<lambda>container_image_uri.
     and_then (print_line (''SageMaker Linear Learner Image URI: '' @ container_image_uri)) (\<lambda>_.
     and_then (sdk Get_execution_role (get_execution_role env 1)) (\<lambda>role.
     sdk (Model_create container_image_uri (model_artifact s3_bucket) role model_name)
       (model_create env))))))"

text \<open>
  Step 2, the model package group:
  \<^verbatim>\<open>
  try:
      sagemaker_client.create_model_package_group(...)
      print(f'Created Model Package Group: {model_package_group_name}')
  except sagemaker_client.exceptions.ResourceInUse:
      print(f'Model Package Group {model_package_group_name} already exists.')
  \<close>
\<close>

definition create_group :: "cloud \<Rightarrow> unit io" where
  "create_group env =
     and_then (sdk (Boto3_client ''sagemaker'') (boto3_client env ''sagemaker'')) (\<lambda>_.
     try_except
       (and_then (sdk (Create_model_package_group model_package_group_name
                         model_package_group_description)
                    (create_model_package_group env)) (\<lambda>_.
        print_line (''Created Model Package Group: '' @ model_package_group_name)))
       (\<lambda>e. if e = ClientError ''ResourceInUse''
            then Some (print_line (''Model Package Group '' @ model_package_group_name
                                     @ '' already exists.''))
            else None))"

text \<open>Step 3: \<open>model.register(...)\<close> and the ARN it returns.\<close>

definition register_model :: "cloud \<Rightarrow> unit io" where
  "register_model env =
     and_then (sdk (Model_register model_package_group_name model_approval_status)
                 (model_register env)) (\<lambda>model_package_arn.
     print_line (''Model package version ARN: '' @ model_package_arn))"

text \<open>
  Step 4: \<open>list_model_packages(..., ModelApprovalStatus='Approved', ...)\<close>, then
  \<open>response['ModelPackageSummaryList'][0]['ModelPackageArn']\<close>.
\<close>

definition retrieve_model :: "cloud \<Rightarrow> string io" where
  "retrieve_model env =
     and_then (sdk (List_model_packages model_package_group_name ''Approved'')
                 (list_model_packages env)) (\<lambda>summary_list.
     and_then (first_item summary_list) (\<lambda>latest_model_package_arn.
     and_then (print_line (''Latest Approved Model Package ARN: '' @ latest_model_package_arn)) (\<lambda>_.
     return latest_model_package_arn)))"

text \<open>Step 5: \<open>create_endpoint_config\<close>.\<close>

definition create_config :: "cloud \<Rightarrow> unit io" where
  "create_config env =
     and_then (sdk (Create_endpoint_config endpoint_config_name model_name)
                 (create_endpoint_config env)) (\<lambda>endpoint_config_arn.
     print_line (''Endpoint configuration created: '' @ endpoint_config_arn))"

text \<open>Step 6: \<open>create_endpoint\<close>.\<close>

definition create_the_endpoint :: "cloud \<Rightarrow> unit io" where
  "create_the_endpoint env =
     and_then (sdk (Create_endpoint endpoint_name endpoint_config_name) (create_endpoint env)) (\<lambda>_.
     print_line (''Creating endpoint: '' @ endpoint_name))"

text \<open>The test of the endpoint: the runtime client and \<open>invoke_endpoint\<close>.\<close>

definition test_endpoint :: "cloud \<Rightarrow> unit io" where
  "test_endpoint env =
     and_then (sdk (Boto3_client ''sagemaker-runtime'') (boto3_client env ''sagemaker-runtime'')) (\<lambda>_.
     and_then (sdk (Invoke_endpoint endpoint_name ''text/csv'' input_data) (invoke_endpoint env))
       (\<lambda>prediction.
     print_line (''Predicted house price: '' @ prediction)))"

text \<open>
  The clean-up cell: \<open>delete_endpoint\<close>, the polling loop (at most \<open>passes\<close> passes of
  it), then
  \<^verbatim>\<open>
  try:
      print(f"Deleting endpoint configuration: {endpoint_config_name}")
      sagemaker_client.delete_endpoint_config(EndpointConfigName=endpoint_config_name)
      print("Endpoint configuration deleted successfully.")
  except sagemaker_client.exceptions.ClientError as e:
      if e.response['Error']['Code'] == 'ValidationException':
          print("Endpoint configuration not found or already deleted.")
  print("Cleanup complete.")
  \<close>
\<close>

fun config_handler :: "exn \<Rightarrow> unit io option" where
  "config_handler (ClientError code) =
     Some (if code = ''ValidationException''
           then print_line ''Endpoint configuration not found or already deleted.''
           else return ())"
| "config_handler _ = None"

definition clean_up :: "cloud \<Rightarrow> nat \<Rightarrow> unit io" where
  "clean_up env passes =
     and_then (print_line (''Deleting endpoint: '' @ endpoint_name)) (\<lambda>_.
     and_then (sdk (Delete_endpoint endpoint_name) (delete_endpoint env)) (\<lambda>_.
     and_then (poll_loop endpoint_name (describe_endpoint env) passes 0) (\<lambda>_.
     and_then (try_except
                 (and_then (print_line (''Deleting endpoint configuration: '' @ endpoint_config_name)) (\<lambda>_.
                  and_then (sdk (Delete_endpoint_config endpoint_config_name)
                              (delete_endpoint_config env)) (\<lambda>_.
                  print_line ''Endpoint configuration deleted successfully.'')))
                 config_handler) (\<lambda>_.
     print_line ''Cleanup complete.''))))"

text \<open>The notebook, run from the first cell to the last.\<close>

definition deployment_notebook :: "cloud \<Rightarrow> nat \<Rightarrow> unit io" where
  "deployment_notebook env passes =
     and_then (import_libraries env) (\<lambda>s3_bucket.
     and_then (create_model env s3_bucket) (\<lambda>_.
     and_then (create_group env) (\<lambda>_.
     and_then (register_model env) (\<lambda>_.
     and_then (retrieve_model env) (\<lambda>_.
     and_then (create_config env) (\<lambda>_.
     and_then (create_the_endpoint env) (\<lambda>_.
     and_then (test_endpoint env) (\<lambda>_.
     clean_up env passes))))))))"

section \<open>The processing notebook\<close>

text \<open>
  \<open>os.path.join\<close> of \<open>posixpath\<close>: a component that starts with \<open>/\<close> replaces what
  came before, and a \<open>/\<close> is put between two components unless the left one is empty
  or ends with one.
\<close>

fun os_path_join :: "string \<Rightarrow> string list \<Rightarrow> string" where
  "os_path_join path [] = path"
| "os_path_join path (b # bs) =
     os_path_join
       (if b \<noteq> [] \<and> hd b = CHR ''/'' then b
        else if path = [] \<or> last path = CHR ''/'' then path @ b
        else path @ ''/'' @ b) bs"

text \<open>\<open>df.head()\<close>: the first five rows.\<close>

fun column_take :: "nat \<Rightarrow> column \<Rightarrow> column" where
  "column_take n (Numbers xs) = Numbers (take n xs)"
| "column_take n (Objects xs) = Objects (take n xs)"
| "column_take n (Datetimes xs) = Datetimes (take n xs)"
| "column_take n (Bools xs) = Bools (take n xs)"

definition df_head :: "frame \<Rightarrow> frame" where
  "df_head df = map (\<lambda>(name, c). (name, column_take 5 c)) df"

definition sample_csv :: string where
  "sample_csv = ''kaggle_london_house_price_data_sampled_data.csv''"

definition input_raw_data_prefix :: string where
  "input_raw_data_prefix = ''input/''"

definition output_preprocessed_data_prefix :: string where
  "output_preprocessed_data_prefix = ''output''"

text \<open>Step 1: the session, the role, the bucket and the region.\<close>

definition setup_environment :: "cloud \<Rightarrow> (string \<times> string) io" where
  "setup_environment env =
     and_then (sdk Session (session env)) (\<lambda>_.
     and_then (sdk Get_execution_role (get_execution_role env 0)) (\<lambda>role.
     and_then (sdk Default_bucket (default_bucket env)) (\<lambda>bucket.
     and_then (sdk Boto3_session_region_name (boto3_session_region_name env)) (\<lambda>region.
     and_then (print_line (''SageMaker Role: '' @ role)) (\<lambda>_.
     and_then (print_line (''Default Bucket: '' @ bucket)) (\<lambda>_.
     return (role, bucket)))))))"

text \<open>Step 2: \<open>pd.read_csv\<close> of the sample and \<open>print(df.head())\<close>.\<close>

definition explore_sample :: "cloud \<Rightarrow> unit io" where
  "explore_sample env =
     and_then (sdk (Read_csv sample_csv) (read_csv env sample_csv)) (\<lambda>df.
     print_frame (df_head df))"

text \<open>Step 3: the cell magic \<open>%%writefile preprocessing_script.py\<close>.\<close>

definition write_script :: "cloud \<Rightarrow> unit io" where
  "write_script env = sdk (Writefile ''preprocessing_script.py'') (writefile env)"

text \<open>Step 4: \<open>boto3.resource('s3')\<close> and \<open>upload_file\<close>.\<close>

definition upload_source :: "cloud \<Rightarrow> string \<Rightarrow> unit io" where
  "upload_source env bucket =
     and_then (sdk (Boto3_resource ''s3'') (boto3_resource env ''s3'')) (\<lambda>_.
     sdk (Upload_file sample_csv bucket ''input/data.csv'') (upload_file env))"

text \<open>
  Step 5: \<open>ScriptProcessor(image_uri=image_uris.retrieve('sklearn', 'us-east-1',
  '1.2-1'), ...)\<close> and \<open>processor.run(code, inputs, outputs)\<close>. The call records the
  script, the source and destination of the input, and those of the output.
\<close>

definition run_processing_job :: "cloud \<Rightarrow> string \<Rightarrow> unit io" where
  "run_processing_job env bucket =
     and_then (sdk (Image_uris_retrieve [''sklearn'', ''us-east-1'', ''1.2-1''])
                 (image_uris_retrieve env)) (\<lambda>image_uri.
     sdk (Processor_run ''preprocessing_script.py''
            (''s3://'' @ os_path_join bucket [input_raw_data_prefix, ''data.csv''])
            ''/opt/ml/processing/input''
            ''/opt/ml/processing/output''
            (''s3://'' @ os_path_join bucket [output_preprocessed_data_prefix, ''data-processed'']))
       (processor_run env))"

text \<open>Step 6: \<open>pd.read_csv\<close> of the processed file and \<open>print(df_cleaned.head())\<close>.\<close>

definition validate_cleaned :: "cloud \<Rightarrow> string \<Rightarrow> unit io" where
  "validate_cleaned env bucket =
     and_then (sdk (Read_csv (''s3://'' @ bucket @ ''/output/data-processed/processed.csv''))
                 (read_csv env (''s3://'' @ bucket @ ''/output/data-processed/processed.csv'')))
       (\<lambda>df_cleaned.
     print_frame (df_head df_cleaned))"

definition processing_notebook :: "cloud \<Rightarrow> unit io" where
  "processing_notebook env =
     and_then (setup_environment env) (\<lambda>(role, bucket).
     and_then (explore_sample env) (\<lambda>_.
     and_then (write_script env) (\<lambda>_.
     and_then (upload_source env bucket) (\<lambda>_.
     and_then (run_processing_job env bucket) (\<lambda>_.
     validate_cleaned env bucket)))))"

section \<open>What the notebooks catch, and the operations they call\<close>

text \<open>
  The exceptions the notebook catches, by the call that raised them: \<open>ResourceInUse\<close>
  of \<open>create_model_package_group\<close>, and every \<open>ClientError\<close> of \<open>describe_endpoint\<close>
  and of \<open>delete_endpoint_config\<close>.
\<close>

fun is_client_error :: "exn \<Rightarrow> bool" where
  "is_client_error (ClientError _) = True"
| "is_client_error _ = False"

fun caught :: "call \<Rightarrow> exn \<Rightarrow> bool" where
  "caught (Create_model_package_group _ _) e = (e = ClientError ''ResourceInUse'')"
| "caught (Describe_endpoint _) e = is_client_error e"
| "caught (Delete_endpoint_config _) e = is_client_error e"
| "caught _ _ = False"

text \<open>
  \<open>propagates m\<close>: every call of the run \<open>m\<close> that raised an exception the notebook
  does not catch ended the run with that exception.
\<close>

definition propagates :: "'a io \<Rightarrow> bool" where
  "propagates m =
     (\<forall>c e. Call c (Some e) \<in> set (snd m) \<and> \<not> caught c e \<longrightarrow> fst m = Raised e)"

text \<open>
  \<open>resumes m\<close>: a run \<open>m\<close> that has ended did not stop at a call that raised an
  exception the notebook catches: something follows every such call.
\<close>

definition resumes :: "'a io \<Rightarrow> bool" where
  "resumes m =
     (\<forall>c e. caught c e \<and> fst m \<noteq> Running \<and> snd m \<noteq> [] \<longrightarrow> last (snd m) \<noteq> Call c (Some e))"

text \<open>The name of the SDK operation a call belongs to.\<close>

fun op_name :: "call \<Rightarrow> string" where
  "op_name Session = ''Session''"
| "op_name Get_execution_role = ''get_execution_role''"
| "op_name Default_bucket = ''default_bucket''"
| "op_name Boto3_session_region_name = ''boto3.Session().region_name''"
| "op_name (Upload_data _ _ _) = ''upload_data''"
| "op_name (Image_uris_retrieve _) = ''image_uris.retrieve''"
| "op_name (Model_create _ _ _ _) = ''create model''"
| "op_name (Boto3_client _) = ''boto3.client''"
| "op_name (Boto3_resource _) = ''boto3.resource''"
| "op_name (Create_model_package_group _ _) = ''create model package group''"
| "op_name (Model_register _ _) = ''register model package''"
| "op_name (List_model_packages _ _) = ''list model packages''"
| "op_name (Create_endpoint_config _ _) = ''create endpoint config''"
| "op_name (Create_endpoint _ _) = ''create endpoint''"
| "op_name (Invoke_endpoint _ _ _) = ''invoke endpoint''"
| "op_name (Delete_endpoint _) = ''delete endpoint''"
| "op_name (Describe_endpoint _) = ''describe_endpoint''"
| "op_name (Delete_endpoint_config _) = ''delete endpoint config''"
| "op_name (Read_csv _) = ''read_csv''"
| "op_name (Writefile _) = ''writefile''"
| "op_name (Upload_file _ _ _) = ''upload_file''"
| "op_name (Processor_run _ _ _ _ _) = ''run processing job''"
| "op_name (Df_drop _) = ''drop columns''"
| "op_name (To_datetime _) = ''convert dates''"
| "op_name (Dropna _) = ''drop sparse rows''"
| "op_name (Select_dtypes _) = ''select columns''"
| "op_name (Fit_transform _) = ''impute means''"
| "op_name (Groupby_mean _ _) = ''target-encode''"
| "op_name (Series_map _ _) = ''target-encode''"
| "op_name (Get_dummies _) = ''one-hot encode''"
| "op_name (To_csv _) = ''to_csv''"

text \<open>The operations claim C6 lists, in the order it lists them.\<close>

definition listed_operations :: "string list" where
  "listed_operations =
     [''create model'', ''create model package group'', ''register model package'',
      ''list model packages'', ''create endpoint config'', ''create endpoint'',
      ''invoke endpoint'', ''delete endpoint'']"

text \<open>
  An environment in which every call returns, the registry holds one approved model
  package, and the endpoint is gone at the third \<open>describe_endpoint\<close>.
\<close>

definition all_calls_return :: cloud where
  "all_calls_return =
     \<lparr> session = Inr (),
       get_execution_role = (\<lambda>_. Inr ''arn:aws:iam::111122223333:role/SageMakerRole''),
       default_bucket = Inr ''sagemaker-us-east-1-111122223333'',
       boto3_session_region_name = Inr ''us-east-1'',
       boto_region_name = ''us-east-1'',
       upload_data = Inr ''s3://sagemaker-us-east-1-111122223333//model/model.tar.gz'',
       image_uris_retrieve = Inr ''382416733822.dkr.ecr.us-east-1.amazonaws.com/linear-learner:1'',
       model_create = Inr (),
       boto3_client = (\<lambda>_. Inr ()),
       boto3_resource = (\<lambda>_. Inr ()),
       create_model_package_group = Inr (),
       model_register = Inr ''arn:aws:sagemaker:us-east-1:111122223333:model-package/house-price-prediction-group/1'',
       list_model_packages = Inr [''arn:aws:sagemaker:us-east-1:111122223333:model-package/house-price-prediction-group/1''],
       create_endpoint_config = Inr ''arn:aws:sagemaker:us-east-1:111122223333:endpoint-config/house-price-endpoint-config'',
       create_endpoint = Inr (),
       invoke_endpoint = Inr ''1354000.0'',
       delete_endpoint = Inr (),
       describe_endpoint = (\<lambda>j. if j < 2 then Inr () else Inl (ClientError ''ValidationException'')),
       delete_endpoint_config = Inr (),
       read_csv = (\<lambda>_. Inr []),
       writefile = Inr (),
       upload_file = Inr (),
       processor_run = Inr () \<rparr>"


section \<open>The processing script\<close>

text \<open>
  \<open>preprocessing_script.py\<close> is a straight line of pandas and scikit-learn calls on one
  \<open>DataFrame\<close>. The libraries are not part of the repository, so what each call does
  to a frame is written here after the libraries' documentation; the script itself,
  further down, is the composition of these calls in the order of the source.
\<close>

subsection \<open>Frames\<close>

fun column_cells :: "column \<Rightarrow> cell list" where
  "column_cells (Numbers xs) = map (case_option Null Number) xs"
| "column_cells (Objects xs) = map (case_option Null Text) xs"
| "column_cells (Datetimes xs) = map (case_option Null Timestamp) xs"
| "column_cells (Bools xs) = map Boolean xs"

definition column_length :: "column \<Rightarrow> nat" where
  "column_length c = length (column_cells c)"

text \<open>\<open>df.shape\<close>: the number of rows and the number of columns.\<close>

definition nrows :: "frame \<Rightarrow> nat" where
  "nrows df = (case df of [] \<Rightarrow> 0 | (_, c) # _ \<Rightarrow> column_length c)"

definition ncols :: "frame \<Rightarrow> nat" where
  "ncols df = length df"


text \<open>The \<open>i\<close>-th row: its value in each column, in the order of the columns.\<close>

definition row :: "frame \<Rightarrow> nat \<Rightarrow> cell list" where
  "row df i = map (\<lambda>(name, c). column_cells c ! i) df"


text \<open>The values that are not missing, and their arithmetic mean.\<close>

definition present :: "'a option list \<Rightarrow> 'a list" where
  "present xs = List.map_filter id xs"

definition mean :: "rat list \<Rightarrow> rat" where
  "mean xs = sum_list xs / of_nat (length xs)"

subsection \<open>The library calls\<close>

text \<open>
  \<open>df.drop(columns=labels)\<close>: the frame without these columns; \<open>KeyError\<close> when a
  label is not a column (pandas names all such labels in the message, the model the
  first).
\<close>

definition drop_columns :: "string list \<Rightarrow> frame \<Rightarrow> exn + frame" where
  "drop_columns labels df =
     (case filter (\<lambda>l. l \<notin> set (map fst df)) labels of
        [] \<Rightarrow> Inr (filter (\<lambda>(name, c). name \<notin> set labels) df)
      | l # _ \<Rightarrow> Inl (KeyError l))"

text \<open>\<open>df[label] = column\<close>: replaces the column of that label, or adds it as the last.\<close>

definition assign_column :: "string \<Rightarrow> column \<Rightarrow> frame \<Rightarrow> frame" where
  "assign_column label c df =
     (if label \<in> set (map fst df)
      then map (\<lambda>(name, c'). if name = label then (name, c) else (name, c')) df
      else df @ [(label, c)])"

text \<open>
  \<open>df[label] = pd.to_datetime(df[label])\<close>. \<open>df[label]\<close> raises \<open>KeyError\<close> when
  there is no such column. How pandas reads one value as a timestamp is left to the
  parameter \<open>parse\<close> (\<open>None\<close> when it cannot, and pandas raises a \<open>ValueError\<close>); a
  missing value stays missing (\<open>NaT\<close>), and a \<open>bool\<close> column is refused with
  \<open>TypeError\<close>.
\<close>

definition parse_all :: "(cell \<Rightarrow> string option) \<Rightarrow> cell list \<Rightarrow> exn + column" where
  "parse_all parse cs =
     (if list_all (\<lambda>c. c = Null \<or> parse c \<noteq> None) cs
      then Inr (Datetimes (map (\<lambda>c. if c = Null then None else parse c) cs))
      else Inl ValueError)"

fun to_datetime_column :: "(cell \<Rightarrow> string option) \<Rightarrow> column \<Rightarrow> exn + column" where
  "to_datetime_column parse (Datetimes xs) = Inr (Datetimes xs)"
| "to_datetime_column parse (Bools xs) = Inl TypeError"
| "to_datetime_column parse c = parse_all parse (column_cells c)"

definition to_datetime :: "(cell \<Rightarrow> string option) \<Rightarrow> string \<Rightarrow> frame \<Rightarrow> exn + frame" where
  "to_datetime parse label df =
     (case map_of df label of
        None \<Rightarrow> Inl (KeyError label)
      | Some c \<Rightarrow>
          (case to_datetime_column parse c of
             Inl e \<Rightarrow> Inl e
           | Inr c' \<Rightarrow> Inr (assign_column label c' df)))"

text \<open>
  \<open>df.dropna(thresh=k)\<close> keeps the rows that have at least \<open>k\<close> values which are not
  missing, in their order, and drops the others.
\<close>

definition non_null_count :: "cell list \<Rightarrow> nat" where
  "non_null_count r = length (filter (\<lambda>c. c \<noteq> Null) r)"

fun column_select :: "nat list \<Rightarrow> column \<Rightarrow> column" where
  "column_select keep (Numbers xs) = Numbers (map (nth xs) keep)"
| "column_select keep (Objects xs) = Objects (map (nth xs) keep)"
| "column_select keep (Datetimes xs) = Datetimes (map (nth xs) keep)"
| "column_select keep (Bools xs) = Bools (map (nth xs) keep)"

definition dropna :: "nat \<Rightarrow> frame \<Rightarrow> frame" where
  "dropna thresh df =
     (let keep = filter (\<lambda>i. thresh \<le> non_null_count (row df i)) [0..<nrows df]
      in map (\<lambda>(name, c). (name, column_select keep c)) df)"

text \<open>
  \<open>int(n * 0.7)\<close> for an \<open>int\<close> \<open>n\<close>. The literal \<open>0.7\<close> is the IEEE 754 double
  \<open>6305039478318694 * 2^-53\<close>; the product is rounded to 53 significant bits, ties to
  even, and \<open>int\<close> drops the fraction. (\<open>n\<close> is a number of columns: it is itself a
  double, and the product is far from overflow.)
\<close>

fun bit_length :: "nat \<Rightarrow> nat" where
  "bit_length n = (if n = 0 then 0 else Suc (bit_length (n div 2)))"

declare bit_length.simps [simp del]

definition round_to_53_bits :: "nat \<Rightarrow> nat" where
  "round_to_53_bits a =
     (if bit_length a \<le> 53 then a
      else let s = bit_length a - 53;
               q = a div 2 ^ s;
               r = a mod 2 ^ s
           in (if 2 ^ (s - 1) < r \<or> (r = 2 ^ (s - 1) \<and> odd q) then q + 1 else q) * 2 ^ s)"

definition int_times_0_7 :: "nat \<Rightarrow> nat" where
  "int_times_0_7 n = round_to_53_bits (n * 6305039478318694) div 2 ^ 53"

text \<open>\<open>df.select_dtypes(include=[kind]).columns\<close> for \<open>number\<close> and for \<open>object\<close>.\<close>

fun is_numeric :: "column \<Rightarrow> bool" where
  "is_numeric (Numbers _) = True"
| "is_numeric _ = False"

fun is_object :: "column \<Rightarrow> bool" where
  "is_object (Objects _) = True"
| "is_object _ = False"

definition select_dtypes :: "(column \<Rightarrow> bool) \<Rightarrow> frame \<Rightarrow> string list" where
  "select_dtypes kind df = map fst (filter (\<lambda>(name, c). kind c) df)"

text \<open>
  Modelled from the spec: \<open>SimpleImputer(strategy='mean').fit_transform\<close> of
  scikit-learn, which the script calls and the repository does not contain. The spec says
  "impute means": in every numeric column a missing value becomes the mean of the
  column's values that are not missing, and the other values stay. After scikit-learn's
  documentation the call raises \<open>ValueError\<close> when it gets no column, and a column
  with no value at all is left out of its result, so that assigning the result back to
  \<open>df[numeric_cols]\<close> raises \<open>ValueError\<close>.
\<close>

fun impute_column :: "column \<Rightarrow> column" where
  "impute_column (Numbers xs) =
     Numbers (map (\<lambda>x. case x of None \<Rightarrow> Some (mean (present xs)) | Some v \<Rightarrow> Some v) xs)"
| "impute_column c = c"

fun lacks_values :: "column \<Rightarrow> bool" where
  "lacks_values (Numbers xs) = (present xs = [])"
| "lacks_values c = False"

definition fit_transform :: "frame \<Rightarrow> exn + frame" where
  "fit_transform df =
     (if select_dtypes is_numeric df = [] \<or> list_ex (\<lambda>(name, c). lacks_values c) df
      then Inl ValueError
      else Inr (map (\<lambda>(name, c). (name, impute_column c)) df))"

text \<open>
  \<open>df.groupby(key)[target].mean()\<close>: for every value of the key column that is not
  missing, the mean of the target values, those not missing, of the rows with that key.
  Rows whose key is missing belong to no group. \<open>KeyError\<close> when a column is not there.
  The script's target is a float column. pandas also takes the mean of a \<open>bool\<close>
  column, counting \<open>True\<close> as 1 and \<open>False\<close> as 0. For an \<open>object\<close> or
  \<open>datetime64\<close> target its answer depends on its version (\<open>DataError\<close>,
  \<open>TypeError\<close>, or a mean of timestamps); the model raises \<open>TypeError\<close>.
\<close>

fun numeric_values :: "column \<Rightarrow> rat option list option" where
  "numeric_values (Numbers vs) = Some vs"
| "numeric_values (Bools bs) = Some (map (\<lambda>b. Some (if b then 1 else 0)) bs)"
| "numeric_values c = None"

definition group_mean :: "cell list \<Rightarrow> rat option list \<Rightarrow> cell \<Rightarrow> rat option" where
  "group_mean keys targets k =
     (let g = present (map snd (filter (\<lambda>(k', v). k' = k) (zip keys targets)))
      in if k = Null \<or> g = [] then None else Some (mean g))"

definition groupby_mean :: "string \<Rightarrow> string \<Rightarrow> frame \<Rightarrow> exn + (cell \<Rightarrow> rat option)" where
  "groupby_mean key target df =
     (case map_of df key of
        None \<Rightarrow> Inl (KeyError key)
      | Some kc \<Rightarrow>
          (case map_of df target of
             None \<Rightarrow> Inl (KeyError target)
           | Some tc \<Rightarrow>
               (case numeric_values tc of
                  None \<Rightarrow> Inl TypeError
                | Some vs \<Rightarrow> Inr (group_mean (column_cells kc) vs))))"

text \<open>
  \<open>df[new] = df[key].map(means)\<close>: each row gets the mean of its key's group, and a
  missing value when its key is missing or has no group.
\<close>

definition series_map :: "string \<Rightarrow> string \<Rightarrow> (cell \<Rightarrow> rat option) \<Rightarrow> frame \<Rightarrow> exn + frame" where
  "series_map new key means df =
     (case map_of df key of
        None \<Rightarrow> Inl (KeyError key)
      | Some kc \<Rightarrow> Inr (assign_column new (Numbers (map means (column_cells kc))) df))"

text \<open>
  \<open>pd.get_dummies(df, columns=labels)\<close> for the labels of the \<open>object\<close> columns: the
  other columns come first, then for each \<open>object\<close> column one indicator column per
  distinct value, in sorted order, named \<open>label_value\<close>. A row whose value is missing
  has 0 in all of them. (The indicators are the numbers 0 and 1, as pandas 1 writes
  them; pandas 2 writes them as booleans.)
\<close>

definition dummies :: "string \<Rightarrow> string option list \<Rightarrow> frame" where
  "dummies label xs =
     map (\<lambda>v. (label @ ''_'' @ v, Numbers (map (\<lambda>x. Some (if x = Some v then 1 else 0)) xs)))
       (sort (remdups (present xs)))"

fun dummies_of :: "string \<times> column \<Rightarrow> frame" where
  "dummies_of (label, Objects xs) = dummies label xs"
| "dummies_of (label, c) = []"

definition get_dummies :: "frame \<Rightarrow> frame" where
  "get_dummies df = filter (\<lambda>(name, c). \<not> is_object c) df @ concat (map dummies_of df)"

subsection \<open>The script\<close>

text \<open>
  The container the script runs in: what \<open>pd.read_csv\<close> makes of the input file, how
  \<open>pd.to_datetime\<close> reads a value, and whether \<open>to_csv\<close> can write the output.
\<close>

record container =
  input_csv :: "exn + frame"
  parse_datetime :: "cell \<Rightarrow> string option"
  to_csv :: "frame \<Rightarrow> exn + unit"

definition unnecessary_columns :: "string list" where
  "unnecessary_columns =
     [''fullAddress'', ''rentEstimate_lowerPrice'', ''rentEstimate_currentPrice'',
      ''rentEstimate_upperPrice'', ''saleEstimate_lowerPrice'', ''saleEstimate_upperPrice'',
      ''outcode'', ''saleEstimate_ingestedAt'']"

text \<open>Line 104: \<open>df = df.dropna(thresh=int(df.shape[1] * 0.7))\<close>.\<close>

definition remove_sparse_rows :: "frame \<Rightarrow> frame" where
  "remove_sparse_rows df = dropna (int_times_0_7 (ncols df)) df"

text \<open>
  Lines 113 to 118: the target encoding of \<open>postcode\<close> by the mean of
  \<open>saleEstimate_currentPrice\<close>, and the drop of the \<open>postcode\<close> column.
\<close>

definition target_encode :: "frame \<Rightarrow> exn + frame" where
  "target_encode df =
     (case groupby_mean ''postcode'' ''saleEstimate_currentPrice'' df of
        Inl e \<Rightarrow> Inl e
      | Inr target_mean \<Rightarrow>
          (case series_map ''Postcode_Encoded'' ''postcode'' target_mean df of
             Inl e \<Rightarrow> Inl e
           | Inr df' \<Rightarrow> drop_columns [''postcode''] df'))"

text \<open>
  \<^verbatim>\<open>
  df = pd.read_csv('/opt/ml/processing/input/data.csv')
  df = df.drop(columns=[...])
  df['saleEstimate_valueChange.saleDate'] = pd.to_datetime(df['saleEstimate_valueChange.saleDate'])
  df['history_date'] = pd.to_datetime(df['history_date'])
  df = df.dropna(thresh=int(df.shape[1] * 0.7))
  numeric_cols = df.select_dtypes(include=['number']).columns
  num_imputer = SimpleImputer(strategy='mean')
  df[numeric_cols] = num_imputer.fit_transform(df[numeric_cols])
  target_mean = df.groupby('postcode')['saleEstimate_currentPrice'].mean()
  df['Postcode_Encoded'] = df['postcode'].map(target_mean)
  df = df.drop(columns=['postcode'])
  categorical_cols = df.select_dtypes(include=['object']).columns
  df = pd.get_dummies(df, columns=categorical_cols)
  df.to_csv('/opt/ml/processing/output/processed.csv', index=False)
  \<close>
  The script completes with the frame it has written.
\<close>

definition preprocessing_script :: "container \<Rightarrow> frame io" where
  "preprocessing_script env =
     and_then (sdk (Read_csv ''/opt/ml/processing/input/data.csv'') (input_csv env)) (\<lambda>df.
     and_then (sdk (Df_drop unnecessary_columns) (drop_columns unnecessary_columns df)) (\<lambda>df.
     and_then (sdk (To_datetime ''saleEstimate_valueChange.saleDate'')
                 (to_datetime (parse_datetime env) ''saleEstimate_valueChange.saleDate'' df)) (\<lambda>df.
     and_then (sdk (To_datetime ''history_date'')
                 (to_datetime (parse_datetime env) ''history_date'' df)) (\<lambda>df.
     and_then (sdk (Dropna (int_times_0_7 (ncols df))) (Inr (remove_sparse_rows df))) (\<lambda>df.
     and_then (sdk (Select_dtypes ''number'') (Inr (select_dtypes is_numeric df))) (\<lambda>numeric_cols.
     and_then (sdk (Fit_transform numeric_cols) (fit_transform df)) (\<lambda>df.
     and_then (sdk (Groupby_mean ''postcode'' ''saleEstimate_currentPrice'')
                 (groupby_mean ''postcode'' ''saleEstimate_currentPrice'' df)) (\<lambda>target_mean.
     and_then (sdk (Series_map ''Postcode_Encoded'' ''postcode'')
                 (series_map ''Postcode_Encoded'' ''postcode'' target_mean df)) (\<lambda>df.
     and_then (sdk (Df_drop [''postcode'']) (drop_columns [''postcode''] df)) (\<lambda>df.
     and_then (sdk (Select_dtypes ''object'') (Inr (select_dtypes is_object df))) (\<lambda>categorical_cols.
     and_then (sdk (Get_dummies categorical_cols) (Inr (get_dummies df))) (\<lambda>df.
     and_then (sdk (To_csv ''/opt/ml/processing/output/processed.csv'') (to_csv env df)) (\<lambda>_.
     return df)))))))))))))"

text \<open>
  A small input file: the eight columns the script drops, the two date columns, the
  postcode, the current price, the number of bedrooms and the tenure, for four
  properties. The third property has only its postcode and its bedrooms; the fourth has
  no postcode; the second has no number of bedrooms.
\<close>

definition sample_frame :: frame where
  "sample_frame =
     [(''fullAddress'', Objects [Some ''1 High St'', Some ''2 High St'', None, Some ''4 Low Rd'']),
      (''rentEstimate_lowerPrice'', Numbers [Some 900, Some 1900, None, Some 2900]),
      (''rentEstimate_currentPrice'', Numbers [Some 1000, Some 2000, None, Some 3000]),
      (''rentEstimate_upperPrice'', Numbers [Some 1100, Some 2100, None, Some 3100]),
      (''saleEstimate_lowerPrice'', Numbers [Some 90, Some 290, None, Some 490]),
      (''saleEstimate_upperPrice'', Numbers [Some 110, Some 310, None, Some 510]),
      (''outcode'', Objects [Some ''N1'', Some ''N1'', None, None]),
      (''saleEstimate_ingestedAt'', Objects [Some ''2024-10-07'', Some ''2024-10-07'', None, None]),
      (''saleEstimate_valueChange.saleDate'',
         Objects [Some ''2020-01-01'', Some ''2021-06-30'', None, Some ''2019-03-15'']),
      (''history_date'', Objects [Some ''2019-12-01'', Some ''2021-05-30'', None, Some ''2019-02-15'']),
      (''postcode'', Objects [Some ''N1 1AA'', Some ''N1 1AA'', Some ''E2 2BB'', None]),
      (''saleEstimate_currentPrice'', Numbers [Some 100, Some 300, None, Some 500]),
      (''bedrooms'', Numbers [Some 2, None, Some 4, Some 3]),
      (''tenure'', Objects [Some ''Leasehold'', Some ''Freehold'', None, Some ''Freehold''])]"

fun text_only :: "cell \<Rightarrow> string option" where
  "text_only (Text s) = Some s"
| "text_only c = None"

definition sample_container :: container where
  "sample_container =
     \<lparr> input_csv = Inr sample_frame, parse_datetime = text_only, to_csv = (\<lambda>df. Inr ()) \<rparr>"

text \<open>
  The sample after the drop of the eight columns, after each of the two date
  conversions, after the row filter, after the imputation, after the target encoding, and
  as the script writes it.
\<close>

definition sample_dropped :: frame where
  "sample_dropped =
     [(''saleEstimate_valueChange.saleDate'',
         Objects [Some ''2020-01-01'', Some ''2021-06-30'', None, Some ''2019-03-15'']),
      (''history_date'', Objects [Some ''2019-12-01'', Some ''2021-05-30'', None, Some ''2019-02-15'']),
      (''postcode'', Objects [Some ''N1 1AA'', Some ''N1 1AA'', Some ''E2 2BB'', None]),
      (''saleEstimate_currentPrice'', Numbers [Some 100, Some 300, None, Some 500]),
      (''bedrooms'', Numbers [Some 2, None, Some 4, Some 3]),
      (''tenure'', Objects [Some ''Leasehold'', Some ''Freehold'', None, Some ''Freehold''])]"

definition sample_dated_once :: frame where
  "sample_dated_once =
     [(''saleEstimate_valueChange.saleDate'',
         Datetimes [Some ''2020-01-01'', Some ''2021-06-30'', None, Some ''2019-03-15'']),
      (''history_date'', Objects [Some ''2019-12-01'', Some ''2021-05-30'', None, Some ''2019-02-15'']),
      (''postcode'', Objects [Some ''N1 1AA'', Some ''N1 1AA'', Some ''E2 2BB'', None]),
      (''saleEstimate_currentPrice'', Numbers [Some 100, Some 300, None, Some 500]),
      (''bedrooms'', Numbers [Some 2, None, Some 4, Some 3]),
      (''tenure'', Objects [Some ''Leasehold'', Some ''Freehold'', None, Some ''Freehold''])]"

definition sample_dated :: frame where
  "sample_dated =
     [(''saleEstimate_valueChange.saleDate'',
         Datetimes [Some ''2020-01-01'', Some ''2021-06-30'', None, Some ''2019-03-15'']),
      (''history_date'', Datetimes [Some ''2019-12-01'', Some ''2021-05-30'', None, Some ''2019-02-15'']),
      (''postcode'', Objects [Some ''N1 1AA'', Some ''N1 1AA'', Some ''E2 2BB'', None]),
      (''saleEstimate_currentPrice'', Numbers [Some 100, Some 300, None, Some 500]),
      (''bedrooms'', Numbers [Some 2, None, Some 4, Some 3]),
      (''tenure'', Objects [Some ''Leasehold'', Some ''Freehold'', None, Some ''Freehold''])]"

definition sample_filtered :: frame where
  "sample_filtered =
     [(''saleEstimate_valueChange.saleDate'',
         Datetimes [Some ''2020-01-01'', Some ''2021-06-30'', Some ''2019-03-15'']),
      (''history_date'', Datetimes [Some ''2019-12-01'', Some ''2021-05-30'', Some ''2019-02-15'']),
      (''postcode'', Objects [Some ''N1 1AA'', Some ''N1 1AA'', None]),
      (''saleEstimate_currentPrice'', Numbers [Some 100, Some 300, Some 500]),
      (''bedrooms'', Numbers [Some 2, None, Some 3]),
      (''tenure'', Objects [Some ''Leasehold'', Some ''Freehold'', Some ''Freehold''])]"

definition sample_imputed :: frame where
  "sample_imputed =
     [(''saleEstimate_valueChange.saleDate'',
         Datetimes [Some ''2020-01-01'', Some ''2021-06-30'', Some ''2019-03-15'']),
      (''history_date'', Datetimes [Some ''2019-12-01'', Some ''2021-05-30'', Some ''2019-02-15'']),
      (''postcode'', Objects [Some ''N1 1AA'', Some ''N1 1AA'', None]),
      (''saleEstimate_currentPrice'', Numbers [Some 100, Some 300, Some 500]),
      (''bedrooms'', Numbers [Some 2, Some (5 / 2), Some 3]),
      (''tenure'', Objects [Some ''Leasehold'', Some ''Freehold'', Some ''Freehold''])]"

definition sample_encoded :: frame where
  "sample_encoded =
     [(''saleEstimate_valueChange.saleDate'',
         Datetimes [Some ''2020-01-01'', Some ''2021-06-30'', Some ''2019-03-15'']),
      (''history_date'', Datetimes [Some ''2019-12-01'', Some ''2021-05-30'', Some ''2019-02-15'']),
      (''saleEstimate_currentPrice'', Numbers [Some 100, Some 300, Some 500]),
      (''bedrooms'', Numbers [Some 2, Some (5 / 2), Some 3]),
      (''tenure'', Objects [Some ''Leasehold'', Some ''Freehold'', Some ''Freehold'']),
      (''Postcode_Encoded'', Numbers [Some 200, Some 200, None])]"

definition sample_output :: frame where
  "sample_output =
     [(''saleEstimate_valueChange.saleDate'',
         Datetimes [Some ''2020-01-01'', Some ''2021-06-30'', Some ''2019-03-15'']),
      (''history_date'', Datetimes [Some ''2019-12-01'', Some ''2021-05-30'', Some ''2019-02-15'']),
      (''saleEstimate_currentPrice'', Numbers [Some 100, Some 300, Some 500]),
      (''bedrooms'', Numbers [Some 2, Some (5 / 2), Some 3]),
      (''Postcode_Encoded'', Numbers [Some 200, Some 200, None]),
      (''tenure_Freehold'', Numbers [Some 0, Some 1, Some 1]),
      (''tenure_Leasehold'', Numbers [Some 1, Some 0, Some 0])]"

text \<open>
  The steps claim C3 lists, and the transformations of a run: its calls but for the
  reading of the input, the selection of column labels and the writing of the output.
\<close>

definition claimed_steps :: "string list" where
  "claimed_steps = [''drop columns'', ''impute means'', ''one-hot encode'', ''target-encode'']"

definition transformations :: "event list \<Rightarrow> string list" where
  "transformations tr =
     filter (\<lambda>s. s \<notin> set [''read_csv'', ''select columns'', ''to_csv''])
       (map op_name (sdk_calls tr))"

text \<open>\<open>ends_on_failure m\<close>: every call of the run that raised ended the run as raised.\<close>

definition ends_on_failure :: "'a io \<Rightarrow> bool" where
  "ends_on_failure m = (\<forall>c e. Call c (Some e) \<in> set (snd m) \<longrightarrow> fst m = Raised e)"



section \<open>Properties of the polling loop\<close>

text \<open>One pass of the loop, by what the \<open>describe_endpoint\<close> call did.\<close>

lemma poll_loop_Suc_ok:
  "d k = Inr u \<Longrightarrow> poll_loop nm d (Suc n) k =
     (fst (poll_loop nm d n (Suc k)),
      [Call (Describe_endpoint nm) None,
       Print ''Endpoint is still being deleted. Waiting...'', Sleep 30]
        @ snd (poll_loop nm d n (Suc k)))"
  by (simp add: case_prod_beta)

lemma poll_loop_Suc_not_found:
  "d k = Inl (ClientError ''ValidationException'') \<Longrightarrow> poll_loop nm d (Suc n) k =
     (Done (), [Call (Describe_endpoint nm) (Some (ClientError ''ValidationException'')),
                Print ''Endpoint deleted successfully.''])"
  by simp

lemma poll_loop_Suc_swallowed:
  "d k = Inl (ClientError code) \<Longrightarrow> code \<noteq> ''ValidationException'' \<Longrightarrow>
   poll_loop nm d (Suc n) k =
     (fst (poll_loop nm d n (Suc k)),
      Call (Describe_endpoint nm) (Some (ClientError code)) # snd (poll_loop nm d n (Suc k)))"
  by (simp add: case_prod_beta)

lemma poll_loop_Suc_raise:
  "d k = Inl e \<Longrightarrow> \<forall>code. e \<noteq> ClientError code \<Longrightarrow>
   poll_loop nm d (Suc n) k = (Raised e, [Call (Describe_endpoint nm) (Some e)])"
  by (cases e) simp_all

lemma poll_loop_step_cases:
  obtains (ok) u where "d k = Inr u"
  | (not_found) "d k = Inl (ClientError ''ValidationException'')"
  | (swallowed) code where "d k = Inl (ClientError code)" "code \<noteq> ''ValidationException''"
  | (raise) e where "d k = Inl e" "\<forall>code. e \<noteq> ClientError code"
proof (cases "d k")
  case (Inl e)
  then show ?thesis by (cases e) (auto intro: that)
next
  case (Inr u)
  then show ?thesis by (rule ok)
qed

lemma poll_loop_done_iff:
  "(fst (poll_loop nm d n k) = Done ()) =
   (Call (Describe_endpoint nm) (Some (ClientError ''ValidationException''))
      \<in> set (snd (poll_loop nm d n k)))"
proof (induction n arbitrary: k)
  case 0
  show ?case by simp
next
  case (Suc n)
  show ?case
  proof (cases rule: poll_loop_step_cases[where d=d and k=k])
    case (ok u)
    show ?thesis
      unfolding poll_loop_Suc_ok[where d=d and k=k, OF ok] using Suc[of "Suc k"] by simp
  next
    case not_found
    show ?thesis
      unfolding poll_loop_Suc_not_found[where d=d and k=k, OF not_found] by simp
  next
    case (swallowed code)
    show ?thesis
      unfolding poll_loop_Suc_swallowed[where d=d and k=k, OF swallowed]
      using Suc[of "Suc k"] swallowed(2) by simp
  next
    case (raise e)
    then have "e \<noteq> ClientError ''ValidationException''" by blast
    then show ?thesis
      unfolding poll_loop_Suc_raise[where d=d and k=k, OF raise] by simp
  qed
qed

lemma poll_loop_first_call:
  "take 1 (snd (poll_loop nm d (Suc n) k)) = [Call (Describe_endpoint nm) (raised (d k))]"
proof (cases rule: poll_loop_step_cases[where d=d and k=k])
  case (ok u)
  show ?thesis
    unfolding poll_loop_Suc_ok[where d=d and k=k, OF ok] by (simp add: raised_def ok)
next
  case not_found
  show ?thesis
    unfolding poll_loop_Suc_not_found[where d=d and k=k, OF not_found]
    by (simp add: raised_def not_found)
next
  case (swallowed code)
  show ?thesis
    unfolding poll_loop_Suc_swallowed[where d=d and k=k, OF swallowed]
    by (simp add: raised_def swallowed)
next
  case (raise e)
  show ?thesis
    unfolding poll_loop_Suc_raise[where d=d and k=k, OF raise] by (simp add: raised_def raise)
qed

lemma poll_loop_waits_then_calls:
  assumes "d k = Inr u"
  shows "take 4 (snd (poll_loop nm d (Suc (Suc n)) k)) =
     [Call (Describe_endpoint nm) None,
      Print ''Endpoint is still being deleted. Waiting...'', Sleep 30,
      Call (Describe_endpoint nm) (raised (d (Suc k)))]"
  unfolding poll_loop_Suc_ok[where d=d and k=k, OF assms]
  using poll_loop_first_call[of nm d n "Suc k"] by simp

lemma poll_loop_retries_at_once:
  assumes "d k = Inl (ClientError code)" "code \<noteq> ''ValidationException''"
  shows "take 2 (snd (poll_loop nm d (Suc (Suc n)) k)) =
     [Call (Describe_endpoint nm) (Some (ClientError code)),
      Call (Describe_endpoint nm) (raised (d (Suc k)))]"
  unfolding poll_loop_Suc_swallowed[where d=d and k=k, OF assms]
  using poll_loop_first_call[of nm d n "Suc k"] by simp

lemma poll_loop_done_only_if:
  "fst (poll_loop nm d n k) = Done () \<Longrightarrow>
     \<exists>j. k \<le> j \<and> j < k + n \<and> d j = Inl (ClientError ''ValidationException'')"
proof (induction n arbitrary: k)
  case 0
  then show ?case by simp
next
  case (Suc n)
  show ?case
  proof (cases rule: poll_loop_step_cases[where d=d and k=k])
    case (ok u)
    from Suc.prems have "fst (poll_loop nm d n (Suc k)) = Done ()"
      unfolding poll_loop_Suc_ok[where d=d and k=k, OF ok] by simp
    from Suc.IH[OF this] show ?thesis by (metis Suc_leD add_Suc_shift)
  next
    case not_found
    then show ?thesis by (intro exI[of _ k]) simp
  next
    case (swallowed code)
    from Suc.prems have "fst (poll_loop nm d n (Suc k)) = Done ()"
      unfolding poll_loop_Suc_swallowed[where d=d and k=k, OF swallowed] by simp
    from Suc.IH[OF this] show ?thesis by (metis Suc_leD add_Suc_shift)
  next
    case (raise e)
    from Suc.prems show ?thesis
      unfolding poll_loop_Suc_raise[where d=d and k=k, OF raise] by simp
  qed
qed

text \<open>The whole run of the loop.\<close>

lemma sdk_calls_append: "sdk_calls (xs @ ys) = sdk_calls xs @ sdk_calls ys"
  by (induction xs rule: sdk_calls.induct) simp_all

lemma call_outcomes_append: "call_outcomes (xs @ ys) = call_outcomes xs @ call_outcomes ys"
  by (induction xs rule: call_outcomes.induct) simp_all

lemma length_call_outcomes: "length (call_outcomes tr) = length (sdk_calls tr)"
  by (induction tr rule: sdk_calls.induct) simp_all

lemma poll_loop_next_is_describe:
  "list_all is_describe (take 1 (snd (poll_loop nm d n k)))"
proof (cases n)
  case 0
  then show ?thesis by simp
next
  case (Suc m)
  show ?thesis unfolding Suc poll_loop_first_call by simp
qed

lemma poll_loop_waits_and_calls_again:
  "waits_and_calls_again (snd (poll_loop nm d n k))"
proof (induction n arbitrary: k)
  case 0
  show ?case by simp
next
  case (Suc n)
  show ?case
  proof (cases rule: poll_loop_step_cases[where d=d and k=k])
    case (ok u)
    show ?thesis
      unfolding poll_loop_Suc_ok[where d=d and k=k, OF ok]
      using Suc[of "Suc k"] poll_loop_next_is_describe[of nm d n "Suc k"] by simp
  next
    case not_found
    show ?thesis
      unfolding poll_loop_Suc_not_found[where d=d and k=k, OF not_found] by simp
  next
    case (swallowed code)
    show ?thesis
      unfolding poll_loop_Suc_swallowed[where d=d and k=k, OF swallowed]
      using Suc[of "Suc k"] by simp
  next
    case (raise e)
    show ?thesis
      unfolding poll_loop_Suc_raise[where d=d and k=k, OF raise] by simp
  qed
qed

lemma poll_loop_calls_describe_only:
  "sdk_calls (snd (poll_loop nm d n k)) =
     replicate (length (sdk_calls (snd (poll_loop nm d n k)))) (Describe_endpoint nm)"
proof (induction n arbitrary: k)
  case 0
  show ?case by simp
next
  case (Suc n)
  show ?case
  proof (cases rule: poll_loop_step_cases[where d=d and k=k])
    case (ok u)
    show ?thesis
      unfolding poll_loop_Suc_ok[where d=d and k=k, OF ok]
      using Suc[of "Suc k"] by simp
  next
    case not_found
    show ?thesis
      unfolding poll_loop_Suc_not_found[where d=d and k=k, OF not_found] by simp
  next
    case (swallowed code)
    show ?thesis
      unfolding poll_loop_Suc_swallowed[where d=d and k=k, OF swallowed]
      using Suc[of "Suc k"] by simp
  next
    case (raise e)
    show ?thesis
      unfolding poll_loop_Suc_raise[where d=d and k=k, OF raise] by simp
  qed
qed

lemma poll_loop_calls_in_turn:
  "call_outcomes (snd (poll_loop nm d n k)) =
     map (\<lambda>j. raised (d j)) [k ..< k + length (sdk_calls (snd (poll_loop nm d n k)))]"
proof (induction n arbitrary: k)
  case 0
  show ?case by simp
next
  case (Suc n)
  show ?case
  proof (cases rule: poll_loop_step_cases[where d=d and k=k])
    case (ok u)
    show ?thesis
      unfolding poll_loop_Suc_ok[where d=d and k=k, OF ok]
      using Suc[of "Suc k"] by (simp add: upt_conv_Cons raised_def ok del: upt_Suc)
  next
    case not_found
    show ?thesis
      unfolding poll_loop_Suc_not_found[where d=d and k=k, OF not_found]
      by (simp add: raised_def not_found)
  next
    case (swallowed code)
    show ?thesis
      unfolding poll_loop_Suc_swallowed[where d=d and k=k, OF swallowed]
      using Suc[of "Suc k"] by (simp add: upt_conv_Cons raised_def swallowed del: upt_Suc)
  next
    case (raise e)
    show ?thesis
      unfolding poll_loop_Suc_raise[where d=d and k=k, OF raise]
      by (simp add: raised_def raise)
  qed
qed

lemma poll_loop_running_calls:
  "fst (poll_loop nm d n k) = Running \<Longrightarrow> length (sdk_calls (snd (poll_loop nm d n k))) = n"
proof (induction n arbitrary: k)
  case 0
  show ?case by simp
next
  case (Suc n)
  show ?case
  proof (cases rule: poll_loop_step_cases[where d=d and k=k])
    case (ok u)
    from Suc.prems have "fst (poll_loop nm d n (Suc k)) = Running"
      unfolding poll_loop_Suc_ok[where d=d and k=k, OF ok] by simp
    from Suc.IH[OF this] show ?thesis
      unfolding poll_loop_Suc_ok[where d=d and k=k, OF ok] by simp
  next
    case not_found
    from Suc.prems show ?thesis
      unfolding poll_loop_Suc_not_found[where d=d and k=k, OF not_found] by simp
  next
    case (swallowed code)
    from Suc.prems have "fst (poll_loop nm d n (Suc k)) = Running"
      unfolding poll_loop_Suc_swallowed[where d=d and k=k, OF swallowed] by simp
    from Suc.IH[OF this] show ?thesis
      unfolding poll_loop_Suc_swallowed[where d=d and k=k, OF swallowed] by simp
  next
    case (raise e)
    from Suc.prems show ?thesis
      unfolding poll_loop_Suc_raise[where d=d and k=k, OF raise] by simp
  qed
qed

lemma poll_loop_no_event: "snd (poll_loop nm d n k) = [] \<Longrightarrow> n = 0"
  using poll_loop_first_call[of nm d "n - 1" k] by (cases n) auto

lemma poll_loop_stops_after_sleep:
  "snd (poll_loop nm d n k) \<noteq> [] \<Longrightarrow> last (snd (poll_loop nm d n k)) = Sleep 30 \<Longrightarrow>
   fst (poll_loop nm d n k) = Running"
proof (induction n arbitrary: k)
  case 0
  show ?case by simp
next
  case (Suc n)
  show ?case
  proof (cases rule: poll_loop_step_cases[where d=d and k=k])
    case (ok u)
    show ?thesis
    proof (cases "snd (poll_loop nm d n (Suc k)) = []")
      case True
      then have "n = 0" by (rule poll_loop_no_event)
      then show ?thesis unfolding poll_loop_Suc_ok[where d=d and k=k, OF ok] by simp
    next
      case False
      moreover from Suc.prems(2) False have "last (snd (poll_loop nm d n (Suc k))) = Sleep 30"
        unfolding poll_loop_Suc_ok[where d=d and k=k, OF ok] by simp
      ultimately have "fst (poll_loop nm d n (Suc k)) = Running" by (rule Suc.IH)
      then show ?thesis unfolding poll_loop_Suc_ok[where d=d and k=k, OF ok] by simp
    qed
  next
    case not_found
    from Suc.prems show ?thesis
      unfolding poll_loop_Suc_not_found[where d=d and k=k, OF not_found] by simp
  next
    case (swallowed code)
    show ?thesis
    proof (cases "snd (poll_loop nm d n (Suc k)) = []")
      case True
      with Suc.prems show ?thesis
        unfolding poll_loop_Suc_swallowed[where d=d and k=k, OF swallowed] by simp
    next
      case False
      moreover from Suc.prems(2) False have "last (snd (poll_loop nm d n (Suc k))) = Sleep 30"
        unfolding poll_loop_Suc_swallowed[where d=d and k=k, OF swallowed] by simp
      ultimately have "fst (poll_loop nm d n (Suc k)) = Running" by (rule Suc.IH)
      then show ?thesis
        unfolding poll_loop_Suc_swallowed[where d=d and k=k, OF swallowed] by simp
    qed
  next
    case (raise e)
    from Suc.prems show ?thesis
      unfolding poll_loop_Suc_raise[where d=d and k=k, OF raise] by simp
  qed
qed

lemma poll_loop_ended_nonempty:
  "fst (poll_loop nm d n k) \<noteq> Running \<Longrightarrow> snd (poll_loop nm d n k) \<noteq> []"
  using poll_loop_no_event[of nm d n k] by (cases n) auto

lemma poll_loop_last_done:
  "fst (poll_loop nm d n k) = Done u \<Longrightarrow>
   last (snd (poll_loop nm d n k)) = Print ''Endpoint deleted successfully.''"
proof (induction n arbitrary: k)
  case 0
  then show ?case by simp
next
  case (Suc n)
  show ?case
  proof (cases rule: poll_loop_step_cases[where d=d and k=k])
    case (ok v)
    from Suc.prems have 1: "fst (poll_loop nm d n (Suc k)) = Done u"
      unfolding poll_loop_Suc_ok[where d=d and k=k, OF ok] by simp
    then have "snd (poll_loop nm d n (Suc k)) \<noteq> []"
      using poll_loop_ended_nonempty[of nm d n "Suc k"] by simp
    with Suc.IH[OF 1] show ?thesis
      unfolding poll_loop_Suc_ok[where d=d and k=k, OF ok] by simp
  next
    case not_found
    show ?thesis
      unfolding poll_loop_Suc_not_found[where d=d and k=k, OF not_found] by simp
  next
    case (swallowed code)
    from Suc.prems have 1: "fst (poll_loop nm d n (Suc k)) = Done u"
      unfolding poll_loop_Suc_swallowed[where d=d and k=k, OF swallowed] by simp
    then have "snd (poll_loop nm d n (Suc k)) \<noteq> []"
      using poll_loop_ended_nonempty[of nm d n "Suc k"] by simp
    with Suc.IH[OF 1] show ?thesis
      unfolding poll_loop_Suc_swallowed[where d=d and k=k, OF swallowed] by simp
  next
    case (raise e)
    from Suc.prems show ?thesis
      unfolding poll_loop_Suc_raise[where d=d and k=k, OF raise] by simp
  qed
qed

lemma poll_loop_last_raised:
  "fst (poll_loop nm d n k) = Raised e \<Longrightarrow>
   last (snd (poll_loop nm d n k)) = Call (Describe_endpoint nm) (Some e)
   \<and> \<not> is_client_error e"
proof (induction n arbitrary: k)
  case 0
  then show ?case by simp
next
  case (Suc n)
  show ?case
  proof (cases rule: poll_loop_step_cases[where d=d and k=k])
    case (ok v)
    from Suc.prems have 1: "fst (poll_loop nm d n (Suc k)) = Raised e"
      unfolding poll_loop_Suc_ok[where d=d and k=k, OF ok] by simp
    then have "snd (poll_loop nm d n (Suc k)) \<noteq> []"
      using poll_loop_ended_nonempty[of nm d n "Suc k"] by simp
    with Suc.IH[OF 1] show ?thesis
      unfolding poll_loop_Suc_ok[where d=d and k=k, OF ok] by simp
  next
    case not_found
    from Suc.prems show ?thesis
      unfolding poll_loop_Suc_not_found[where d=d and k=k, OF not_found] by simp
  next
    case (swallowed code)
    from Suc.prems have 1: "fst (poll_loop nm d n (Suc k)) = Raised e"
      unfolding poll_loop_Suc_swallowed[where d=d and k=k, OF swallowed] by simp
    then have "snd (poll_loop nm d n (Suc k)) \<noteq> []"
      using poll_loop_ended_nonempty[of nm d n "Suc k"] by simp
    with Suc.IH[OF 1] show ?thesis
      unfolding poll_loop_Suc_swallowed[where d=d and k=k, OF swallowed] by simp
  next
    case (raise e')
    from Suc.prems have "e' = e"
      unfolding poll_loop_Suc_raise[where d=d and k=k, OF raise] by simp
    with raise(2) have "\<not> is_client_error e" by (cases e) simp_all
    with \<open>e' = e\<close> show ?thesis
      unfolding poll_loop_Suc_raise[where d=d and k=k, OF raise] by simp
  qed
qed

text \<open>
  Claim C1. The loop calls \<open>describe_endpoint\<close> again and again, and control leaves it
  for the statement after it exactly when one of its calls raised the
  \<open>ClientError\<close> with code \<open>ValidationException\<close>, the service's answer for an
  endpoint it cannot find. Over the whole run, from any call index \<open>k\<close> and for any
  bound \<open>n\<close> on the passes: every call that returned is followed at once by the
  message, by \<open>time.sleep(30)\<close> and, unless the passes end there, by the next
  \<open>describe_endpoint\<close> call; the loop makes no other call than \<open>describe_endpoint\<close>
  of the endpoint; its calls are the calls \<open>k\<close>, \<open>k + 1\<close>, ... of the run, one after
  the other; a run still in the loop after \<open>n\<close> passes has made \<open>n\<close> calls; and a
  trace that stops at the sleep is that of a run still in the loop. In particular the
  first four events of a run whose call \<open>k\<close> returned are the call, the message, the
  sleep and call \<open>k + 1\<close>.
\<close>

theorem poll_loop_exits_iff_not_found:
  "(fst (poll_loop nm d n k) = Done ()) =
     (Call (Describe_endpoint nm) (Some (ClientError ''ValidationException''))
        \<in> set (snd (poll_loop nm d n k)))
   \<and> waits_and_calls_again (snd (poll_loop nm d n k))
   \<and> sdk_calls (snd (poll_loop nm d n k)) =
       replicate (length (sdk_calls (snd (poll_loop nm d n k)))) (Describe_endpoint nm)
   \<and> call_outcomes (snd (poll_loop nm d n k)) =
       map (\<lambda>j. raised (d j)) [k ..< k + length (sdk_calls (snd (poll_loop nm d n k)))]
   \<and> (fst (poll_loop nm d n k) = Running \<longrightarrow>
        length (sdk_calls (snd (poll_loop nm d n k))) = n)
   \<and> (snd (poll_loop nm d n k) \<noteq> [] \<and> last (snd (poll_loop nm d n k)) = Sleep 30 \<longrightarrow>
        fst (poll_loop nm d n k) = Running)
   \<and> (d k = Inr () \<longrightarrow>
        take 4 (snd (poll_loop nm d (Suc (Suc n)) k)) =
          [Call (Describe_endpoint nm) None,
           Print ''Endpoint is still being deleted. Waiting...'', Sleep 30,
           Call (Describe_endpoint nm) (raised (d (Suc k)))])"
  using poll_loop_done_iff[of nm d n k] poll_loop_waits_and_calls_again[of nm d n k]
    poll_loop_calls_describe_only[of nm d n k] poll_loop_calls_in_turn[of nm d n k]
    poll_loop_running_calls[of nm d n k] poll_loop_stops_after_sleep[of nm d n k]
    poll_loop_waits_then_calls[of d k "()" nm n]
  by blast

theorem poll_loop_exits_iff_not_found_witness:
  "poll_loop ''house-price-prediction-endpoint''
         (\<lambda>j. if j < 2 then Inr () else Inl (ClientError ''ValidationException'')) 5 0 =
     (Done (),
      [Call (Describe_endpoint ''house-price-prediction-endpoint'') None,
       Print ''Endpoint is still being deleted. Waiting...'', Sleep 30,
       Call (Describe_endpoint ''house-price-prediction-endpoint'') None,
       Print ''Endpoint is still being deleted. Waiting...'', Sleep 30,
       Call (Describe_endpoint ''house-price-prediction-endpoint'')
         (Some (ClientError ''ValidationException'')),
       Print ''Endpoint deleted successfully.''])
   \<and> waits_and_calls_again
       (snd (poll_loop ''house-price-prediction-endpoint''
         (\<lambda>j. if j < 2 then Inr () else Inl (ClientError ''ValidationException'')) 5 0))
   \<and> call_outcomes
       (snd (poll_loop ''house-price-prediction-endpoint''
         (\<lambda>j. if j < 2 then Inr () else Inl (ClientError ''ValidationException'')) 5 0)) =
       [None, None, Some (ClientError ''ValidationException'')]
   \<and> poll_loop ''house-price-prediction-endpoint'' (\<lambda>j. Inr ()) 4 0 =
     (Running,
      [Call (Describe_endpoint ''house-price-prediction-endpoint'') None,
       Print ''Endpoint is still being deleted. Waiting...'', Sleep 30,
       Call (Describe_endpoint ''house-price-prediction-endpoint'') None,
       Print ''Endpoint is still being deleted. Waiting...'', Sleep 30,
       Call (Describe_endpoint ''house-price-prediction-endpoint'') None,
       Print ''Endpoint is still being deleted. Waiting...'', Sleep 30,
       Call (Describe_endpoint ''house-price-prediction-endpoint'') None,
       Print ''Endpoint is still being deleted. Waiting...'', Sleep 30])
   \<and> length (sdk_calls (snd (poll_loop ''house-price-prediction-endpoint''
         (\<lambda>j. Inr ()) 4 0))) = 4"
  using poll_loop_exits_iff_not_found[of "''house-price-prediction-endpoint''"
      "\<lambda>j. if j < 2 then Inr () else Inl (ClientError ''ValidationException'')" 5 0]
    poll_loop_exits_iff_not_found[of "''house-price-prediction-endpoint''" "\<lambda>j. Inr ()" 4 0]
  by (simp add: numeral_2_eq_2 eval_nat_numeral raised_def)

text \<open>
  Claim C7, as stated: between any two consecutive \<open>describe_endpoint\<close> calls of the
  loop the program sleeps 30 seconds. It fails when a call raises a \<open>ClientError\<close>
  with a code other than \<open>ValidationException\<close>: the \<open>except\<close> clause catches it, and
  the next pass calls \<open>describe_endpoint\<close> with no sleep in between.
\<close>

theorem poll_loop_sleep_between_counterexample:
  "\<not> slept_between (snd (poll_loop ''house-price-prediction-endpoint''
        (\<lambda>j. Inl (ClientError ''ThrottlingException'')) 2 0))"
  by (simp add: numeral_2_eq_2)

text \<open>
  Claim C7, amended: after every \<open>describe_endpoint\<close> call of the loop that returned,
  the program sleeps 30 seconds before the next \<open>describe_endpoint\<close> call.
\<close>

theorem poll_loop_sleeps_after_success:
  "slept_after_success (snd (poll_loop nm d n k))"
proof (induction n arbitrary: k)
  case 0
  show ?case by simp
next
  case (Suc n)
  show ?case
  proof (cases rule: poll_loop_step_cases[where d=d and k=k])
    case (ok u)
    show ?thesis
      unfolding poll_loop_Suc_ok[where d=d and k=k, OF ok] using Suc[of "Suc k"] by simp
  next
    case not_found
    show ?thesis
      unfolding poll_loop_Suc_not_found[where d=d and k=k, OF not_found] by simp
  next
    case (swallowed code)
    show ?thesis
      unfolding poll_loop_Suc_swallowed[where d=d and k=k, OF swallowed]
      using Suc[of "Suc k"] by simp
  next
    case (raise e)
    show ?thesis
      unfolding poll_loop_Suc_raise[where d=d and k=k, OF raise] by simp
  qed
qed

theorem poll_loop_sleeps_after_success_witness:
  "slept_after_success
     [Call (Describe_endpoint ''house-price-prediction-endpoint'') None,
      Print ''Endpoint is still being deleted. Waiting...'', Sleep 30,
      Call (Describe_endpoint ''house-price-prediction-endpoint'')
        (Some (ClientError ''ThrottlingException'')),
      Call (Describe_endpoint ''house-price-prediction-endpoint'')
        (Some (ClientError ''ValidationException'')),
      Print ''Endpoint deleted successfully.'']"
  using poll_loop_sleeps_after_success[of "''house-price-prediction-endpoint''"
      "\<lambda>j. if j = 0 then Inr () else if j = 1 then Inl (ClientError ''ThrottlingException'')
            else Inl (ClientError ''ValidationException'')" 3 0]
  by (simp add: numeral_3_eq_3)

text \<open>
  Claim C9. Control leaves the loop for the next statement only if one of its
  \<open>describe_endpoint\<close> calls raised the \<open>ClientError\<close> with code exactly
  \<open>ValidationException\<close>. A \<open>ClientError\<close> with another code is swallowed: the pass
  records nothing but the call, prints nothing, does not sleep, and the next pass calls
  \<open>describe_endpoint\<close> at once. An exception that is not a \<open>ClientError\<close> leaves the
  loop as raised.
\<close>

theorem poll_loop_termination_and_errors:
  "(fst (poll_loop nm d n k) = Done () \<longrightarrow>
      (\<exists>j. k \<le> j \<and> j < k + n \<and> d j = Inl (ClientError ''ValidationException'')))
   \<and> (d k = Inl (ClientError code) \<and> code \<noteq> ''ValidationException'' \<longrightarrow>
        poll_loop nm d (Suc n) k =
          (fst (poll_loop nm d n (Suc k)),
           Call (Describe_endpoint nm) (Some (ClientError code)) # snd (poll_loop nm d n (Suc k)))
        \<and> take 2 (snd (poll_loop nm d (Suc (Suc n)) k)) =
            [Call (Describe_endpoint nm) (Some (ClientError code)),
             Call (Describe_endpoint nm) (raised (d (Suc k)))])
   \<and> (d k = Inl e \<and> (\<forall>c. e \<noteq> ClientError c) \<longrightarrow>
        poll_loop nm d (Suc n) k = (Raised e, [Call (Describe_endpoint nm) (Some e)]))"
  using poll_loop_done_only_if[of nm d n k]
    poll_loop_Suc_swallowed[of d k code nm n]
    poll_loop_retries_at_once[of d k code nm n]
    poll_loop_Suc_raise[of d k e nm n]
  by blast

theorem poll_loop_termination_and_errors_witness:
  "(\<exists>j::nat. 0 \<le> j \<and> j < 0 + 2 \<and>
        (if j = 0 then Inl (ClientError ''ThrottlingException'')
         else (Inl (ClientError ''ValidationException'') :: exn + unit)) =
        Inl (ClientError ''ValidationException''))
   \<and> fst (poll_loop ''house-price-prediction-endpoint''
        (\<lambda>j. if j = 0 then Inl (ClientError ''ThrottlingException'')
              else Inl (ClientError ''ValidationException'')) 2 0) = Done ()
   \<and> take 2 (snd (poll_loop ''house-price-prediction-endpoint''
        (\<lambda>j. if j = 0 then Inl (ClientError ''ThrottlingException'')
              else Inl (ClientError ''ValidationException'')) 2 0)) =
       [Call (Describe_endpoint ''house-price-prediction-endpoint'')
          (Some (ClientError ''ThrottlingException'')),
        Call (Describe_endpoint ''house-price-prediction-endpoint'')
          (Some (ClientError ''ValidationException''))]"
  using poll_loop_termination_and_errors[of "''house-price-prediction-endpoint''"
      "\<lambda>j. if j = 0 then Inl (ClientError ''ThrottlingException'')
            else Inl (ClientError ''ValidationException'')" 2 0 "''ThrottlingException''"]
    poll_loop_termination_and_errors[of "''house-price-prediction-endpoint''"
      "\<lambda>j. if j = 0 then Inl (ClientError ''ThrottlingException'')
            else Inl (ClientError ''ValidationException'')" 0 0 "''ThrottlingException''"]
  by (simp add: numeral_2_eq_2 raised_def)

section \<open>Properties of the notebooks\<close>

subsection \<open>Exceptions that are not caught end the run\<close>

lemma propagates_sdk: "propagates (sdk c r)"
  by (cases r) (auto simp: propagates_def sdk_def)

lemma propagates_print_line: "propagates (print_line s)"
  by (simp add: propagates_def print_line_def)

lemma propagates_print_frame: "propagates (print_frame df)"
  by (simp add: propagates_def print_frame_def)

lemma propagates_return: "propagates (return a)"
  by (simp add: propagates_def return_def)

lemma propagates_first_item: "propagates (first_item xs)"
  by (cases xs) (simp_all add: propagates_def first_item_def)

lemma propagates_case_prod:
  "(\<And>a b. propagates (f a b)) \<Longrightarrow> propagates (case p of (a, b) \<Rightarrow> f a b)"
  by (cases p) simp

lemma propagates_and_then:
  assumes "propagates m" and "\<And>a. propagates (f a)"
  shows "propagates (and_then m f)"
proof (cases m)
  case (Pair r tr)
  show ?thesis
  proof (cases r)
    case (Done a)
    obtain r' tr' where f: "f a = (r', tr')" by (cases "f a")
    from assms(1) Pair Done have no: "\<And>c e. Call c (Some e) \<in> set tr \<Longrightarrow> caught c e"
      by (auto simp: propagates_def)
    from assms(2)[of a] f
    have "\<And>c e. Call c (Some e) \<in> set tr' \<Longrightarrow> \<not> caught c e \<Longrightarrow> r' = Raised e"
      by (auto simp: propagates_def)
    with no show ?thesis
      by (auto simp: propagates_def and_then_def Pair Done f)
  next
    case (Raised e)
    with assms(1) Pair show ?thesis by (simp add: propagates_def and_then_def)
  next
    case Running
    with assms(1) Pair show ?thesis by (simp add: propagates_def and_then_def)
  qed
qed

lemma propagates_poll_loop: "propagates (poll_loop nm d n k)"
proof (induction n arbitrary: k)
  case 0
  show ?case by (simp add: propagates_def)
next
  case (Suc n)
  show ?case
  proof (cases rule: poll_loop_step_cases[where d=d and k=k])
    case (ok u)
    show ?thesis
      unfolding poll_loop_Suc_ok[where d=d and k=k, OF ok] using Suc[of "Suc k"]
      by (auto simp: propagates_def)
  next
    case not_found
    show ?thesis
      unfolding poll_loop_Suc_not_found[where d=d and k=k, OF not_found]
      by (auto simp: propagates_def)
  next
    case (swallowed code)
    show ?thesis
      unfolding poll_loop_Suc_swallowed[where d=d and k=k, OF swallowed]
      using Suc[of "Suc k"] by (auto simp: propagates_def)
  next
    case (raise e)
    show ?thesis
      unfolding poll_loop_Suc_raise[where d=d and k=k, OF raise]
      by (auto simp: propagates_def)
  qed
qed

lemma propagates_create_group: "propagates (create_group env)"
  unfolding create_group_def
proof (rule propagates_and_then[OF propagates_sdk])
  fix a :: unit
  show "propagates
     (try_except
       (and_then (sdk (Create_model_package_group model_package_group_name
                         model_package_group_description)
                    (create_model_package_group env)) (\<lambda>_.
        print_line (''Created Model Package Group: '' @ model_package_group_name)))
       (\<lambda>e. if e = ClientError ''ResourceInUse''
            then Some (print_line (''Model Package Group '' @ model_package_group_name
                                     @ '' already exists.''))
            else None))"
    by (cases "create_model_package_group env")
       (auto simp: propagates_def try_except_def and_then_def sdk_def print_line_def)
qed

lemma propagates_delete_config:
  "propagates (try_except
                 (and_then (print_line s1) (\<lambda>_.
                  and_then (sdk (Delete_endpoint_config nm) r) (\<lambda>_.
                  print_line s2)))
                 config_handler)"
proof (cases r)
  case (Inl e)
  then show ?thesis
    by (cases e)
       (auto simp: propagates_def try_except_def and_then_def sdk_def print_line_def return_def)
next
  case (Inr u)
  then show ?thesis
    by (auto simp: propagates_def try_except_def and_then_def sdk_def print_line_def)
qed

lemmas propagates_intros = propagates_and_then propagates_sdk propagates_print_line
  propagates_print_frame propagates_return propagates_first_item propagates_poll_loop
  propagates_create_group propagates_delete_config propagates_case_prod

lemma propagates_deployment_notebook: "propagates (deployment_notebook env n)"
  unfolding deployment_notebook_def import_libraries_def create_model_def register_model_def
    retrieve_model_def create_config_def create_the_endpoint_def test_endpoint_def clean_up_def
  by (intro propagates_intros)

lemma propagates_processing_notebook: "propagates (processing_notebook env)"
  unfolding processing_notebook_def setup_environment_def explore_sample_def write_script_def
    upload_source_def run_processing_job_def validate_cleaned_def
  by (intro propagates_intros)

subsection \<open>Exceptions that are caught do not end the run\<close>

lemma resumes_sdk: "(\<And>e. \<not> caught c e) \<Longrightarrow> resumes (sdk c r)"
  by (cases r) (auto simp: resumes_def sdk_def)

lemma resumes_print_line: "resumes (print_line s)"
  by (simp add: resumes_def print_line_def)

lemma resumes_print_frame: "resumes (print_frame df)"
  by (simp add: resumes_def print_frame_def)

lemma resumes_return: "resumes (return a)"
  by (simp add: resumes_def return_def)

lemma resumes_first_item: "resumes (first_item xs)"
  by (cases xs) (simp_all add: resumes_def first_item_def)

lemma resumes_and_then:
  assumes "resumes m" and "\<And>a. resumes (f a)"
  shows "resumes (and_then m f)"
proof (cases m)
  case (Pair r tr)
  show ?thesis
  proof (cases r)
    case (Done a)
    obtain r' tr' where f: "f a = (r', tr')" by (cases "f a")
    from assms(1) Pair Done
    have m: "\<And>c e. caught c e \<Longrightarrow> tr \<noteq> [] \<Longrightarrow> last tr \<noteq> Call c (Some e)"
      by (auto simp: resumes_def)
    from assms(2)[of a] f
    have fa: "\<And>c e. caught c e \<Longrightarrow> r' \<noteq> Running \<Longrightarrow> tr' \<noteq> [] \<Longrightarrow>
                 last tr' \<noteq> Call c (Some e)"
      by (auto simp: resumes_def)
    show ?thesis
    proof (cases "tr' = []")
      case True
      with m show ?thesis by (auto simp: resumes_def and_then_def Pair Done f)
    next
      case False
      with fa show ?thesis by (auto simp: resumes_def and_then_def Pair Done f)
    qed
  next
    case (Raised e)
    with assms(1) Pair show ?thesis by (simp add: resumes_def and_then_def)
  next
    case Running
    with assms(1) Pair show ?thesis by (simp add: resumes_def and_then_def)
  qed
qed

lemma resumes_poll_loop: "resumes (poll_loop nm d n k)"
  unfolding resumes_def
proof (intro allI impI)
  fix c e
  assume a: "caught c e \<and> fst (poll_loop nm d n k) \<noteq> Running \<and> snd (poll_loop nm d n k) \<noteq> []"
  show "last (snd (poll_loop nm d n k)) \<noteq> Call c (Some e)"
  proof (cases "fst (poll_loop nm d n k)")
    case (Done u)
    from poll_loop_last_done[OF this] show ?thesis by simp
  next
    case (Raised e')
    from poll_loop_last_raised[OF this] a show ?thesis by auto
  next
    case Running
    with a show ?thesis by simp
  qed
qed

lemma resumes_create_group: "resumes (create_group env)"
  by (cases "boto3_client env ''sagemaker''"; cases "create_model_package_group env")
     (auto simp: create_group_def resumes_def try_except_def and_then_def sdk_def print_line_def)

lemma resumes_delete_config:
  "resumes (and_then
              (try_except
                 (and_then (print_line s1) (\<lambda>_.
                  and_then (sdk (Delete_endpoint_config nm) r) (\<lambda>_.
                  print_line s2)))
                 config_handler)
              (\<lambda>_. print_line s3))"
proof (cases r)
  case (Inl e)
  then show ?thesis
    by (cases e)
       (auto simp: resumes_def try_except_def and_then_def sdk_def print_line_def return_def)
next
  case (Inr u)
  then show ?thesis
    by (auto simp: resumes_def try_except_def and_then_def sdk_def print_line_def)
qed

lemmas resumes_intros = resumes_delete_config resumes_create_group resumes_poll_loop
  resumes_and_then resumes_sdk resumes_print_line resumes_print_frame resumes_return
  resumes_first_item

lemma resumes_deployment_notebook: "resumes (deployment_notebook env n)"
  unfolding deployment_notebook_def import_libraries_def create_model_def register_model_def
    retrieve_model_def create_config_def create_the_endpoint_def test_endpoint_def clean_up_def
  by (intro resumes_intros) simp_all

text \<open>What the two \<open>except\<close> clauses outside the loop do, for every environment.\<close>

lemma create_group_in_use:
  assumes "boto3_client env ''sagemaker'' = Inr ()"
    and "create_model_package_group env = Inl (ClientError ''ResourceInUse'')"
  shows "create_group env =
     (Done (),
      [Call (Boto3_client ''sagemaker'') None,
       Call (Create_model_package_group model_package_group_name
               model_package_group_description) (Some (ClientError ''ResourceInUse'')),
       Print (''Model Package Group '' @ model_package_group_name @ '' already exists.'')])"
  by (simp add: create_group_def try_except_def and_then_def sdk_def print_line_def assms)

lemma snd_and_then_Done:
  "fst m = Done a \<Longrightarrow> snd (and_then m f) = snd m @ snd (f a)"
  by (cases m) (simp add: and_then_def case_prod_beta)

lemma snd_and_then_subset: "set (snd m) \<subseteq> set (snd (and_then m f))"
  by (cases m; cases "fst m") (auto simp: and_then_def case_prod_beta)

lemma register_model_call:
  "Call (Model_register model_package_group_name model_approval_status)
     (raised (model_register env)) \<in> set (snd (register_model env))"
  by (cases "model_register env")
     (simp_all add: register_model_def and_then_def sdk_def print_line_def raised_def)

lemma in_use_goes_on:
  assumes "fst (import_libraries env) = Done b" and "fst (create_model env b) = Done ()"
    and "boto3_client env ''sagemaker'' = Inr ()"
    and "create_model_package_group env = Inl (ClientError ''ResourceInUse'')"
  shows "Call (Model_register model_package_group_name model_approval_status)
           (raised (model_register env)) \<in> set (snd (deployment_notebook env n))"
proof -
  have g: "fst (create_group env) = Done ()"
    by (simp add: create_group_in_use[OF assms(3,4)])
  have "set (snd (register_model env)) \<subseteq> set (snd (deployment_notebook env n))"
    unfolding deployment_notebook_def
    by (simp add: snd_and_then_Done[OF assms(1)] snd_and_then_Done[OF assms(2)]
        snd_and_then_Done[OF g])
       (meson snd_and_then_subset le_supI2)
  with register_model_call[of env] show ?thesis by blast
qed

lemma clean_up_config_error:
  assumes "delete_endpoint env = Inr ()"
    and "fst (poll_loop endpoint_name (describe_endpoint env) n 0) = Done ()"
    and "delete_endpoint_config env = Inl (ClientError code)"
  shows "clean_up env n =
     (Done (),
      [Print (''Deleting endpoint: '' @ endpoint_name), Call (Delete_endpoint endpoint_name) None]
      @ snd (poll_loop endpoint_name (describe_endpoint env) n 0)
      @ [Print (''Deleting endpoint configuration: '' @ endpoint_config_name),
         Call (Delete_endpoint_config endpoint_config_name) (Some (ClientError code))]
      @ (if code = ''ValidationException''
         then [Print ''Endpoint configuration not found or already deleted.''] else [])
      @ [Print ''Cleanup complete.''])"
proof -
  obtain tr where "poll_loop endpoint_name (describe_endpoint env) n 0 = (Done (), tr)"
    using assms(2) by (cases "poll_loop endpoint_name (describe_endpoint env) n 0") simp
  then show ?thesis
    by (simp add: clean_up_def try_except_def and_then_def sdk_def print_line_def return_def
        assms(1,3))
qed

text \<open>
  Claim C2, as stated: outside the polling loop no failure of an SDK call is caught,
  \<open>create_model_package_group\<close> and \<open>delete_endpoint_config\<close> included. It fails on
  both: \<open>ResourceInUse\<close> of \<open>create_model_package_group\<close> is caught by the
  \<open>except\<close> clause of its cell, and any \<open>ClientError\<close> of \<open>delete_endpoint_config\<close> by
  the \<open>except\<close> clause of the clean-up cell; the notebook then runs to its end.
\<close>

theorem failure_handling_counterexample:
  "Call (Create_model_package_group model_package_group_name model_package_group_description)
       (Some (ClientError ''ResourceInUse''))
     \<in> set (snd (deployment_notebook
         (all_calls_return\<lparr>create_model_package_group := Inl (ClientError ''ResourceInUse'')\<rparr>) 3))
   \<and> fst (deployment_notebook
         (all_calls_return\<lparr>create_model_package_group := Inl (ClientError ''ResourceInUse'')\<rparr>) 3)
       = Done ()
   \<and> Call (Delete_endpoint_config endpoint_config_name)
       (Some (ClientError ''AccessDeniedException''))
     \<in> set (snd (deployment_notebook
         (all_calls_return\<lparr>delete_endpoint_config := Inl (ClientError ''AccessDeniedException'')\<rparr>) 3))
   \<and> fst (deployment_notebook
         (all_calls_return\<lparr>delete_endpoint_config := Inl (ClientError ''AccessDeniedException'')\<rparr>) 3)
       = Done ()"
  by (simp add: deployment_notebook_def import_libraries_def create_model_def create_group_def
      register_model_def retrieve_model_def create_config_def create_the_endpoint_def
      test_endpoint_def clean_up_def all_calls_return_def and_then_def sdk_def print_line_def
      return_def try_except_def first_item_def numeral_3_eq_3)

text \<open>
  Claim C2, amended. Besides the polling loop the notebooks catch exceptions in two
  places, and nowhere else.

  \<^item> In both notebooks a call that raises ends the run with that exception, unless it is
    \<open>ResourceInUse\<close> raised by \<open>create_model_package_group\<close> or a \<open>ClientError\<close>
    raised by \<open>describe_endpoint\<close> or by \<open>delete_endpoint_config\<close> (the three cases of
    \<open>caught\<close>). So a failure of create model, register model package, list model
    packages, create endpoint config, create endpoint, invoke endpoint, delete endpoint
    or the processing job is never caught.
  \<^item> In those three cases the deployment notebook never stops at the call.
  \<^item> \<open>ResourceInUse\<close> of \<open>create_model_package_group\<close>: the cell prints that the group
    already exists and completes, and the notebook goes on to register the model.
  \<^item> A \<open>ClientError\<close> of \<open>delete_endpoint_config\<close>, whatever its code: the clean-up
    cell prints its message for the code \<open>ValidationException\<close> and nothing for any
    other code, prints that the clean-up is complete, and completes.
\<close>

theorem failures_caught_and_not_caught:
  "(Call c (Some e) \<in> set (snd (deployment_notebook env n)) \<and> \<not> caught c e
      \<longrightarrow> fst (deployment_notebook env n) = Raised e)
   \<and> (Call c (Some e) \<in> set (snd (processing_notebook env)) \<and> \<not> caught c e
      \<longrightarrow> fst (processing_notebook env) = Raised e)
   \<and> (caught c e \<and> fst (deployment_notebook env n) \<noteq> Running
        \<and> snd (deployment_notebook env n) \<noteq> []
      \<longrightarrow> last (snd (deployment_notebook env n)) \<noteq> Call c (Some e))
   \<and> (boto3_client env ''sagemaker'' = Inr ()
        \<and> create_model_package_group env = Inl (ClientError ''ResourceInUse'')
      \<longrightarrow> create_group env =
            (Done (),
             [Call (Boto3_client ''sagemaker'') None,
              Call (Create_model_package_group model_package_group_name
                      model_package_group_description) (Some (ClientError ''ResourceInUse'')),
              Print (''Model Package Group '' @ model_package_group_name @ '' already exists.'')])
          \<and> (fst (import_libraries env) = Done b \<and> fst (create_model env b) = Done ()
             \<longrightarrow> Call (Model_register model_package_group_name model_approval_status)
                   (raised (model_register env)) \<in> set (snd (deployment_notebook env n))))
   \<and> (delete_endpoint env = Inr ()
        \<and> fst (poll_loop endpoint_name (describe_endpoint env) n 0) = Done ()
        \<and> delete_endpoint_config env = Inl (ClientError code)
      \<longrightarrow> clean_up env n =
            (Done (),
             [Print (''Deleting endpoint: '' @ endpoint_name),
              Call (Delete_endpoint endpoint_name) None]
             @ snd (poll_loop endpoint_name (describe_endpoint env) n 0)
             @ [Print (''Deleting endpoint configuration: '' @ endpoint_config_name),
                Call (Delete_endpoint_config endpoint_config_name) (Some (ClientError code))]
             @ (if code = ''ValidationException''
                then [Print ''Endpoint configuration not found or already deleted.''] else [])
             @ [Print ''Cleanup complete.'']))"
proof (intro conjI impI)
  assume "Call c (Some e) \<in> set (snd (deployment_notebook env n)) \<and> \<not> caught c e"
  then show "fst (deployment_notebook env n) = Raised e"
    using propagates_deployment_notebook[of env n] unfolding propagates_def by blast
next
  assume "Call c (Some e) \<in> set (snd (processing_notebook env)) \<and> \<not> caught c e"
  then show "fst (processing_notebook env) = Raised e"
    using propagates_processing_notebook[of env] unfolding propagates_def by blast
next
  assume "caught c e \<and> fst (deployment_notebook env n) \<noteq> Running
        \<and> snd (deployment_notebook env n) \<noteq> []"
  then show "last (snd (deployment_notebook env n)) \<noteq> Call c (Some e)"
    using resumes_deployment_notebook[of env n] unfolding resumes_def by blast
next
  assume a: "boto3_client env ''sagemaker'' = Inr ()
        \<and> create_model_package_group env = Inl (ClientError ''ResourceInUse'')"
  then show "create_group env =
            (Done (),
             [Call (Boto3_client ''sagemaker'') None,
              Call (Create_model_package_group model_package_group_name
                      model_package_group_description) (Some (ClientError ''ResourceInUse'')),
              Print (''Model Package Group '' @ model_package_group_name @ '' already exists.'')])"
    using create_group_in_use[of env] by blast
  assume "fst (import_libraries env) = Done b \<and> fst (create_model env b) = Done ()"
  with a show "Call (Model_register model_package_group_name model_approval_status)
                   (raised (model_register env)) \<in> set (snd (deployment_notebook env n))"
    using in_use_goes_on[of env b n] by blast
next
  assume "delete_endpoint env = Inr ()
        \<and> fst (poll_loop endpoint_name (describe_endpoint env) n 0) = Done ()
        \<and> delete_endpoint_config env = Inl (ClientError code)"
  then show "clean_up env n =
            (Done (),
             [Print (''Deleting endpoint: '' @ endpoint_name),
              Call (Delete_endpoint endpoint_name) None]
             @ snd (poll_loop endpoint_name (describe_endpoint env) n 0)
             @ [Print (''Deleting endpoint configuration: '' @ endpoint_config_name),
                Call (Delete_endpoint_config endpoint_config_name) (Some (ClientError code))]
             @ (if code = ''ValidationException''
                then [Print ''Endpoint configuration not found or already deleted.''] else [])
             @ [Print ''Cleanup complete.''])"
    using clean_up_config_error[of env n code] by blast
qed

theorem failures_caught_and_not_caught_witness:
  "Call (Create_endpoint endpoint_name endpoint_config_name)
       (Some (ClientError ''ResourceLimitExceeded''))
     \<in> set (snd (deployment_notebook
         (all_calls_return\<lparr>create_endpoint := Inl (ClientError ''ResourceLimitExceeded'')\<rparr>) 3))
   \<and> fst (deployment_notebook
         (all_calls_return\<lparr>create_endpoint := Inl (ClientError ''ResourceLimitExceeded'')\<rparr>) 3)
       = Raised (ClientError ''ResourceLimitExceeded'')
   \<and> fst (processing_notebook
         (all_calls_return\<lparr>processor_run := Inl (OtherError ''UnexpectedStatusException'')\<rparr>))
       = Raised (OtherError ''UnexpectedStatusException'')
   \<and> create_group
         (all_calls_return\<lparr>create_model_package_group := Inl (ClientError ''ResourceInUse'')\<rparr>) =
       (Done (),
        [Call (Boto3_client ''sagemaker'') None,
         Call (Create_model_package_group ''house-price-prediction-group''
                 ''KodeKloud Demystifying SageMaker model package group for house price prediction'')
           (Some (ClientError ''ResourceInUse'')),
         Print ''Model Package Group house-price-prediction-group already exists.''])
   \<and> Call (Model_register ''house-price-prediction-group'' ''PendingManualApproval'') None
     \<in> set (snd (deployment_notebook
         (all_calls_return\<lparr>create_model_package_group := Inl (ClientError ''ResourceInUse'')\<rparr>) 3))
   \<and> clean_up
         (all_calls_return\<lparr>delete_endpoint_config := Inl (ClientError ''ThrottlingException'')\<rparr>)
         3 =
       (Done (),
        [Print ''Deleting endpoint: house-price-prediction-endpoint'',
         Call (Delete_endpoint ''house-price-prediction-endpoint'') None,
         Call (Describe_endpoint ''house-price-prediction-endpoint'') None,
         Print ''Endpoint is still being deleted. Waiting...'', Sleep 30,
         Call (Describe_endpoint ''house-price-prediction-endpoint'') None,
         Print ''Endpoint is still being deleted. Waiting...'', Sleep 30,
         Call (Describe_endpoint ''house-price-prediction-endpoint'')
           (Some (ClientError ''ValidationException'')),
         Print ''Endpoint deleted successfully.'',
         Print ''Deleting endpoint configuration: house-price-endpoint-config'',
         Call (Delete_endpoint_config ''house-price-endpoint-config'')
           (Some (ClientError ''ThrottlingException'')),
         Print ''Cleanup complete.''])
   \<and> clean_up
         (all_calls_return\<lparr>delete_endpoint_config := Inl (ClientError ''ValidationException'')\<rparr>)
         3 =
       (Done (),
        [Print ''Deleting endpoint: house-price-prediction-endpoint'',
         Call (Delete_endpoint ''house-price-prediction-endpoint'') None,
         Call (Describe_endpoint ''house-price-prediction-endpoint'') None,
         Print ''Endpoint is still being deleted. Waiting...'', Sleep 30,
         Call (Describe_endpoint ''house-price-prediction-endpoint'') None,
         Print ''Endpoint is still being deleted. Waiting...'', Sleep 30,
         Call (Describe_endpoint ''house-price-prediction-endpoint'')
           (Some (ClientError ''ValidationException'')),
         Print ''Endpoint deleted successfully.'',
         Print ''Deleting endpoint configuration: house-price-endpoint-config'',
         Call (Delete_endpoint_config ''house-price-endpoint-config'')
           (Some (ClientError ''ValidationException'')),
         Print ''Endpoint configuration not found or already deleted.'',
         Print ''Cleanup complete.''])
   \<and> fst (deployment_notebook
         (all_calls_return\<lparr>delete_endpoint_config := Inl (ClientError ''ThrottlingException'')\<rparr>) 3)
       = Done ()
   \<and> last (snd (deployment_notebook
         (all_calls_return\<lparr>delete_endpoint_config := Inl (ClientError ''ThrottlingException'')\<rparr>) 3))
       \<noteq> Call (Delete_endpoint_config endpoint_config_name)
            (Some (ClientError ''ThrottlingException''))"
proof -
  let ?env = "all_calls_return\<lparr>create_endpoint := Inl (ClientError ''ResourceLimitExceeded'')\<rparr>"
  let ?lab = "all_calls_return\<lparr>processor_run := Inl (OtherError ''UnexpectedStatusException'')\<rparr>"
  let ?in_use =
    "all_calls_return\<lparr>create_model_package_group := Inl (ClientError ''ResourceInUse'')\<rparr>"
  let ?throttled =
    "all_calls_return\<lparr>delete_endpoint_config := Inl (ClientError ''ThrottlingException'')\<rparr>"
  let ?gone =
    "all_calls_return\<lparr>delete_endpoint_config := Inl (ClientError ''ValidationException'')\<rparr>"
  have 1: "Call (Create_endpoint endpoint_name endpoint_config_name)
       (Some (ClientError ''ResourceLimitExceeded'')) \<in> set (snd (deployment_notebook ?env 3))"
    by (simp add: deployment_notebook_def import_libraries_def create_model_def create_group_def
        register_model_def retrieve_model_def create_config_def create_the_endpoint_def
        all_calls_return_def and_then_def sdk_def print_line_def return_def try_except_def
        first_item_def)
  have 2: "Call (Processor_run ''preprocessing_script.py''
            (''s3://'' @ os_path_join ''sagemaker-us-east-1-111122223333''
               [input_raw_data_prefix, ''data.csv''])
            ''/opt/ml/processing/input'' ''/opt/ml/processing/output''
            (''s3://'' @ os_path_join ''sagemaker-us-east-1-111122223333''
               [output_preprocessed_data_prefix, ''data-processed'']))
       (Some (OtherError ''UnexpectedStatusException'')) \<in> set (snd (processing_notebook ?lab))"
    by (simp add: processing_notebook_def setup_environment_def explore_sample_def
        write_script_def upload_source_def run_processing_job_def all_calls_return_def
        and_then_def sdk_def print_line_def print_frame_def return_def)
  have 3: "fst (deployment_notebook ?throttled 3) = Done ()
           \<and> snd (deployment_notebook ?throttled 3) \<noteq> []"
    by (simp add: deployment_notebook_def import_libraries_def create_model_def create_group_def
        register_model_def retrieve_model_def create_config_def create_the_endpoint_def
        test_endpoint_def clean_up_def all_calls_return_def and_then_def sdk_def print_line_def
        return_def try_except_def first_item_def numeral_3_eq_3)
  from 1 failures_caught_and_not_caught[where c="Create_endpoint endpoint_name endpoint_config_name"
      and e="ClientError ''ResourceLimitExceeded''" and env="?env" and n=3]
  have "fst (deployment_notebook ?env 3) = Raised (ClientError ''ResourceLimitExceeded'')"
    by simp
  moreover from 2 failures_caught_and_not_caught[where c="Processor_run ''preprocessing_script.py''
            (''s3://'' @ os_path_join ''sagemaker-us-east-1-111122223333''
               [input_raw_data_prefix, ''data.csv''])
            ''/opt/ml/processing/input'' ''/opt/ml/processing/output''
            (''s3://'' @ os_path_join ''sagemaker-us-east-1-111122223333''
               [output_preprocessed_data_prefix, ''data-processed''])"
      and e="OtherError ''UnexpectedStatusException''" and env="?lab"]
  have "fst (processing_notebook ?lab) = Raised (OtherError ''UnexpectedStatusException'')"
    by simp
  moreover
  have "create_group ?in_use =
       (Done (),
        [Call (Boto3_client ''sagemaker'') None,
         Call (Create_model_package_group ''house-price-prediction-group''
                 ''KodeKloud Demystifying SageMaker model package group for house price prediction'')
           (Some (ClientError ''ResourceInUse'')),
         Print ''Model Package Group house-price-prediction-group already exists.''])
     \<and> Call (Model_register ''house-price-prediction-group'' ''PendingManualApproval'') None
         \<in> set (snd (deployment_notebook ?in_use 3))"
    using failures_caught_and_not_caught[where env="?in_use" and n=3
        and b="''sagemaker-us-east-1-111122223333''"]
    by (simp add: all_calls_return_def import_libraries_def create_model_def and_then_def
        sdk_def print_line_def return_def raised_def model_package_group_name_def
        model_package_group_description_def model_approval_status_def)
  moreover
  have "clean_up ?throttled 3 =
       (Done (),
        [Print ''Deleting endpoint: house-price-prediction-endpoint'',
         Call (Delete_endpoint ''house-price-prediction-endpoint'') None,
         Call (Describe_endpoint ''house-price-prediction-endpoint'') None,
         Print ''Endpoint is still being deleted. Waiting...'', Sleep 30,
         Call (Describe_endpoint ''house-price-prediction-endpoint'') None,
         Print ''Endpoint is still being deleted. Waiting...'', Sleep 30,
         Call (Describe_endpoint ''house-price-prediction-endpoint'')
           (Some (ClientError ''ValidationException'')),
         Print ''Endpoint deleted successfully.'',
         Print ''Deleting endpoint configuration: house-price-endpoint-config'',
         Call (Delete_endpoint_config ''house-price-endpoint-config'')
           (Some (ClientError ''ThrottlingException'')),
         Print ''Cleanup complete.''])"
    using failures_caught_and_not_caught[where env="?throttled" and n=3
        and code="''ThrottlingException''"]
    by (simp add: all_calls_return_def numeral_3_eq_3 endpoint_name_def endpoint_config_name_def)
  moreover
  have "clean_up ?gone 3 =
       (Done (),
        [Print ''Deleting endpoint: house-price-prediction-endpoint'',
         Call (Delete_endpoint ''house-price-prediction-endpoint'') None,
         Call (Describe_endpoint ''house-price-prediction-endpoint'') None,
         Print ''Endpoint is still being deleted. Waiting...'', Sleep 30,
         Call (Describe_endpoint ''house-price-prediction-endpoint'') None,
         Print ''Endpoint is still being deleted. Waiting...'', Sleep 30,
         Call (Describe_endpoint ''house-price-prediction-endpoint'')
           (Some (ClientError ''ValidationException'')),
         Print ''Endpoint deleted successfully.'',
         Print ''Deleting endpoint configuration: house-price-endpoint-config'',
         Call (Delete_endpoint_config ''house-price-endpoint-config'')
           (Some (ClientError ''ValidationException'')),
         Print ''Endpoint configuration not found or already deleted.'',
         Print ''Cleanup complete.''])"
    using failures_caught_and_not_caught[where env="?gone" and n=3
        and code="''ValidationException''"]
    by (simp add: all_calls_return_def numeral_3_eq_3 endpoint_name_def endpoint_config_name_def)
  moreover from 3
  have "last (snd (deployment_notebook ?throttled 3))
       \<noteq> Call (Delete_endpoint_config endpoint_config_name)
            (Some (ClientError ''ThrottlingException''))"
    using failures_caught_and_not_caught[where c="Delete_endpoint_config endpoint_config_name"
        and e="ClientError ''ThrottlingException''" and env="?throttled" and n=3]
    by simp
  ultimately show ?thesis using 1 3 by blast
qed

subsection \<open>The approved model package\<close>

text \<open>
  Claim C8. The step that fetches the latest approved model package takes element
  \<open>[0]\<close> of the \<open>ModelPackageSummaryList\<close> that \<open>list_model_packages\<close> returned.
  When the list is empty the step ends with \<open>IndexError\<close> right after the call; when
  it is not, the step yields the ARN of its first entry. So the step completes exactly
  when the call returns at least one approved model package.
\<close>

theorem retrieve_model_needs_approved_package:
  "(list_model_packages env = Inr [] \<longrightarrow>
      retrieve_model env =
        (Raised IndexError,
         [Call (List_model_packages model_package_group_name ''Approved'') None]))
   \<and> (list_model_packages env = Inr (arn # rest) \<longrightarrow> fst (retrieve_model env) = Done arn)
   \<and> ((\<exists>a. fst (retrieve_model env) = Done a) =
        (\<exists>a as. list_model_packages env = Inr (a # as)))"
  by (cases "list_model_packages env"; cases "projr (list_model_packages env)")
     (auto simp: retrieve_model_def and_then_def sdk_def first_item_def print_line_def
        return_def)

theorem retrieve_model_needs_approved_package_witness:
  "retrieve_model (all_calls_return\<lparr>list_model_packages := Inr []\<rparr>) =
     (Raised IndexError,
      [Call (List_model_packages model_package_group_name ''Approved'') None])
   \<and> fst (deployment_notebook (all_calls_return\<lparr>list_model_packages := Inr []\<rparr>) 3) =
       Raised IndexError
   \<and> fst (retrieve_model all_calls_return) =
       Done ''arn:aws:sagemaker:us-east-1:111122223333:model-package/house-price-prediction-group/1''"
proof -
  have "retrieve_model (all_calls_return\<lparr>list_model_packages := Inr []\<rparr>) =
     (Raised IndexError,
      [Call (List_model_packages model_package_group_name ''Approved'') None])"
    using retrieve_model_needs_approved_package[of
        "all_calls_return\<lparr>list_model_packages := Inr []\<rparr>"]
    by simp
  moreover from this
  have "fst (deployment_notebook (all_calls_return\<lparr>list_model_packages := Inr []\<rparr>) 3) =
       Raised IndexError"
    by (simp add: deployment_notebook_def import_libraries_def create_model_def create_group_def
        register_model_def all_calls_return_def and_then_def sdk_def print_line_def return_def
        try_except_def)
  moreover
  have "fst (retrieve_model all_calls_return) =
       Done ''arn:aws:sagemaker:us-east-1:111122223333:model-package/house-price-prediction-group/1''"
    using retrieve_model_needs_approved_package[of all_calls_return
        "''arn:aws:sagemaker:us-east-1:111122223333:model-package/house-price-prediction-group/1''"
        "[]"]
    by (simp add: all_calls_return_def)
  ultimately show ?thesis by blast
qed

subsection \<open>The sequence of SDK calls\<close>

lemma and_then_DoneE:
  assumes "fst (and_then m f) = Done b"
  obtains a where "fst m = Done a" "fst (f a) = Done b"
    "snd (and_then m f) = snd m @ snd (f a)"
  using assms
  by (cases m; cases "fst m") (auto simp: and_then_def split: prod.splits)

lemma import_libraries_names:
  "fst (import_libraries env) = Done b \<Longrightarrow>
   map op_name (sdk_calls (snd (import_libraries env))) =
     [''Session'', ''get_execution_role'', ''default_bucket'']"
  by (auto simp: import_libraries_def and_then_def sdk_def print_line_def return_def
      split: sum.splits)

lemma create_model_names:
  "fst (create_model env b) = Done u \<Longrightarrow>
   map op_name (sdk_calls (snd (create_model env b))) =
     [''upload_data'', ''image_uris.retrieve'', ''get_execution_role'', ''create model'']"
  by (auto simp: create_model_def and_then_def sdk_def print_line_def return_def
      split: sum.splits)

lemma create_group_names:
  "fst (create_group env) = Done u \<Longrightarrow>
   map op_name (sdk_calls (snd (create_group env))) =
     [''boto3.client'', ''create model package group'']"
  by (auto simp: create_group_def and_then_def try_except_def sdk_def print_line_def return_def
      split: sum.splits if_splits)

lemma register_model_names:
  "fst (register_model env) = Done u \<Longrightarrow>
   map op_name (sdk_calls (snd (register_model env))) = [''register model package'']"
  by (auto simp: register_model_def and_then_def sdk_def print_line_def return_def
      split: sum.splits)

lemma retrieve_model_names:
  "fst (retrieve_model env) = Done u \<Longrightarrow>
   map op_name (sdk_calls (snd (retrieve_model env))) = [''list model packages'']"
  by (auto simp: retrieve_model_def and_then_def sdk_def print_line_def return_def first_item_def
      split: sum.splits list.splits)

lemma create_config_names:
  "fst (create_config env) = Done u \<Longrightarrow>
   map op_name (sdk_calls (snd (create_config env))) = [''create endpoint config'']"
  by (auto simp: create_config_def and_then_def sdk_def print_line_def return_def
      split: sum.splits)

lemma create_the_endpoint_names:
  "fst (create_the_endpoint env) = Done u \<Longrightarrow>
   map op_name (sdk_calls (snd (create_the_endpoint env))) = [''create endpoint'']"
  by (auto simp: create_the_endpoint_def and_then_def sdk_def print_line_def return_def
      split: sum.splits)

lemma test_endpoint_names:
  "fst (test_endpoint env) = Done u \<Longrightarrow>
   map op_name (sdk_calls (snd (test_endpoint env))) = [''boto3.client'', ''invoke endpoint'']"
  by (auto simp: test_endpoint_def and_then_def sdk_def print_line_def return_def
      split: sum.splits)

lemma poll_loop_names:
  "fst (poll_loop nm d n k) = Done u \<Longrightarrow>
   \<exists>m. map op_name (sdk_calls (snd (poll_loop nm d n k))) =
         replicate (Suc m) ''describe_endpoint''"
proof (induction n arbitrary: k)
  case 0
  then show ?case by simp
next
  case (Suc n)
  show ?case
  proof (cases rule: poll_loop_step_cases[where d=d and k=k])
    case (ok v)
    from Suc.prems have "fst (poll_loop nm d n (Suc k)) = Done u"
      unfolding poll_loop_Suc_ok[where d=d and k=k, OF ok] by simp
    from Suc.IH[OF this] obtain m where
      "map op_name (sdk_calls (snd (poll_loop nm d n (Suc k)))) =
         replicate (Suc m) ''describe_endpoint''"
      by blast
    then show ?thesis
      unfolding poll_loop_Suc_ok[where d=d and k=k, OF ok]
      by (intro exI[of _ "Suc m"]) simp
  next
    case not_found
    show ?thesis
      unfolding poll_loop_Suc_not_found[where d=d and k=k, OF not_found]
      by (intro exI[of _ 0]) simp
  next
    case (swallowed code)
    from Suc.prems have "fst (poll_loop nm d n (Suc k)) = Done u"
      unfolding poll_loop_Suc_swallowed[where d=d and k=k, OF swallowed] by simp
    from Suc.IH[OF this] obtain m where
      "map op_name (sdk_calls (snd (poll_loop nm d n (Suc k)))) =
         replicate (Suc m) ''describe_endpoint''"
      by blast
    then show ?thesis
      unfolding poll_loop_Suc_swallowed[where d=d and k=k, OF swallowed]
      by (intro exI[of _ "Suc m"]) simp
  next
    case (raise e)
    from Suc.prems show ?thesis
      unfolding poll_loop_Suc_raise[where d=d and k=k, OF raise] by simp
  qed
qed

lemma delete_config_names:
  "fst (try_except
          (and_then (print_line s1) (\<lambda>_.
           and_then (sdk (Delete_endpoint_config nm) r) (\<lambda>_. print_line s2)))
          config_handler) = Done u \<Longrightarrow>
   map op_name (sdk_calls (snd (try_except
          (and_then (print_line s1) (\<lambda>_.
           and_then (sdk (Delete_endpoint_config nm) r) (\<lambda>_. print_line s2)))
          config_handler))) = [''delete endpoint config'']"
proof (cases r)
  case (Inl e)
  then show ?thesis
    by (cases e) (auto simp: try_except_def and_then_def sdk_def print_line_def return_def)
next
  case (Inr v)
  then show ?thesis
    by (auto simp: try_except_def and_then_def sdk_def print_line_def)
qed

lemma clean_up_names:
  assumes "fst (clean_up env n) = Done u"
  shows "\<exists>m. map op_name (sdk_calls (snd (clean_up env n))) =
     ''delete endpoint'' # replicate (Suc m) ''describe_endpoint'' @ [''delete endpoint config'']"
  using assms unfolding clean_up_def
  apply (elim and_then_DoneE)
  apply (drule poll_loop_names)
  apply (drule delete_config_names)
  apply (erule exE)
  subgoal for a1 a2 a3 a4 m
    apply (rule exI[of _ m])
    apply (simp add: sdk_calls_append)
    apply (simp add: sdk_def print_line_def split: sum.splits)
    done
  done

lemma deployment_notebook_names:
  assumes "fst (deployment_notebook env n) = Done u"
  shows "\<exists>m. map op_name (sdk_calls (snd (deployment_notebook env n))) =
     [''Session'', ''get_execution_role'', ''default_bucket'', ''upload_data'',
      ''image_uris.retrieve'', ''get_execution_role'', ''create model'', ''boto3.client'',
      ''create model package group'', ''register model package'', ''list model packages'',
      ''create endpoint config'', ''create endpoint'', ''boto3.client'', ''invoke endpoint'',
      ''delete endpoint''] @ replicate (Suc m) ''describe_endpoint'' @ [''delete endpoint config'']"
  using assms unfolding deployment_notebook_def
  apply (elim and_then_DoneE)
  apply (drule clean_up_names)
  apply (erule exE)
  subgoal for a1 a2 a3 a4 a5 a6 a7 a8 m
    apply (rule exI[of _ m])
    apply (simp add: sdk_calls_append import_libraries_names create_model_names create_group_names
        register_model_names retrieve_model_names create_config_names create_the_endpoint_names
        test_endpoint_names)
    done
  done

lemma all_calls_return_run:
  "deployment_notebook all_calls_return 3 =
     (Done (),
      [Call Session None, Call Get_execution_role None, Call Default_bucket None,
       Print ''arn:aws:iam::111122223333:role/SageMakerRole'',
       Call (Upload_data ''model.tar.gz'' ''sagemaker-us-east-1-111122223333'' ''/model'') None,
       Print ''File uploaded to: s3://sagemaker-us-east-1-111122223333//model/model.tar.gz'',
       Call (Image_uris_retrieve [''linear-learner'', ''us-east-1'']) None,
       Print ''SageMaker Linear Learner Image URI: 382416733822.dkr.ecr.us-east-1.amazonaws.com/linear-learner:1'',
       Call Get_execution_role None,
       Call (Model_create ''382416733822.dkr.ecr.us-east-1.amazonaws.com/linear-learner:1''
               ''s3://sagemaker-us-east-1-111122223333//model/model.tar.gz''
               ''arn:aws:iam::111122223333:role/SageMakerRole'' ''house-prices'') None,
       Call (Boto3_client ''sagemaker'') None,
       Call (Create_model_package_group ''house-price-prediction-group''
               ''KodeKloud Demystifying SageMaker model package group for house price prediction'')
         None,
       Print ''Created Model Package Group: house-price-prediction-group'',
       Call (Model_register ''house-price-prediction-group'' ''PendingManualApproval'') None,
       Print ''Model package version ARN: arn:aws:sagemaker:us-east-1:111122223333:model-package/house-price-prediction-group/1'',
       Call (List_model_packages ''house-price-prediction-group'' ''Approved'') None,
       Print ''Latest Approved Model Package ARN: arn:aws:sagemaker:us-east-1:111122223333:model-package/house-price-prediction-group/1'',
       Call (Create_endpoint_config ''house-price-endpoint-config'' ''house-prices'') None,
       Print ''Endpoint configuration created: arn:aws:sagemaker:us-east-1:111122223333:endpoint-config/house-price-endpoint-config'',
       Call (Create_endpoint ''house-price-prediction-endpoint'' ''house-price-endpoint-config'')
         None,
       Print ''Creating endpoint: house-price-prediction-endpoint'',
       Call (Boto3_client ''sagemaker-runtime'') None,
       Call (Invoke_endpoint ''house-price-prediction-endpoint'' ''text/csv'' input_data) None,
       Print ''Predicted house price: 1354000.0'',
       Print ''Deleting endpoint: house-price-prediction-endpoint'',
       Call (Delete_endpoint ''house-price-prediction-endpoint'') None,
       Call (Describe_endpoint ''house-price-prediction-endpoint'') None,
       Print ''Endpoint is still being deleted. Waiting...'', Sleep 30,
       Call (Describe_endpoint ''house-price-prediction-endpoint'') None,
       Print ''Endpoint is still being deleted. Waiting...'', Sleep 30,
       Call (Describe_endpoint ''house-price-prediction-endpoint'')
         (Some (ClientError ''ValidationException'')),
       Print ''Endpoint deleted successfully.'',
       Print ''Deleting endpoint configuration: house-price-endpoint-config'',
       Call (Delete_endpoint_config ''house-price-endpoint-config'') None,
       Print ''Endpoint configuration deleted successfully.'',
       Print ''Cleanup complete.''])"
  by (simp add: deployment_notebook_def import_libraries_def create_model_def create_group_def
      register_model_def retrieve_model_def create_config_def create_the_endpoint_def
      test_endpoint_def clean_up_def all_calls_return_def and_then_def sdk_def print_line_def
      return_def try_except_def first_item_def numeral_3_eq_3 model_artifact_def s3_prefix_def
      local_file_path_def model_name_def model_package_group_name_def
      model_package_group_description_def model_approval_status_def endpoint_config_name_def
      endpoint_name_def)

text \<open>
  Claim C6, as stated: run top to bottom, the notebook issues exactly the calls create
  model, create model package group, register model package, list model packages, create
  endpoint config, create endpoint, invoke endpoint, delete endpoint, then the
  \<open>describe_endpoint\<close> polling and delete endpoint config, each as a direct call with
  no control logic between them. It fails twice. In a run where every call returns, the
  sequence is another one: it starts with the session, the role and the bucket, and
  \<open>upload_data\<close> puts the model artifact in S3 before the model is created. And the
  calls are not all direct: \<open>create_model_package_group\<close> stands in a \<open>try\<close> whose
  \<open>except\<close> clause decides what follows, so in a run where it raises \<open>ResourceInUse\<close>
  the clause prints its message and the notebook goes on to its end, where a direct call
  would have ended the run.
\<close>

theorem call_sequence_counterexample:
  "fst (deployment_notebook all_calls_return 3) = Done ()
   \<and> map op_name (sdk_calls (snd (deployment_notebook all_calls_return 3))) \<noteq>
       listed_operations @ replicate 3 ''describe_endpoint'' @ [''delete endpoint config'']
   \<and> ''upload_data'' \<in> set (map op_name (sdk_calls (snd (deployment_notebook all_calls_return 3))))
   \<and> ''upload_data'' \<notin> set listed_operations
   \<and> Call (Create_model_package_group model_package_group_name model_package_group_description)
        (Some (ClientError ''ResourceInUse''))
      \<in> set (snd (deployment_notebook
          (all_calls_return\<lparr>create_model_package_group := Inl (ClientError ''ResourceInUse'')\<rparr>) 3))
   \<and> Print ''Model Package Group house-price-prediction-group already exists.''
      \<in> set (snd (deployment_notebook
          (all_calls_return\<lparr>create_model_package_group := Inl (ClientError ''ResourceInUse'')\<rparr>) 3))
   \<and> fst (deployment_notebook
          (all_calls_return\<lparr>create_model_package_group := Inl (ClientError ''ResourceInUse'')\<rparr>) 3)
        = Done ()"
proof -
  have "Call (Create_model_package_group model_package_group_name model_package_group_description)
        (Some (ClientError ''ResourceInUse''))
      \<in> set (snd (deployment_notebook
          (all_calls_return\<lparr>create_model_package_group := Inl (ClientError ''ResourceInUse'')\<rparr>) 3))
   \<and> Print ''Model Package Group house-price-prediction-group already exists.''
      \<in> set (snd (deployment_notebook
          (all_calls_return\<lparr>create_model_package_group := Inl (ClientError ''ResourceInUse'')\<rparr>) 3))
   \<and> fst (deployment_notebook
          (all_calls_return\<lparr>create_model_package_group := Inl (ClientError ''ResourceInUse'')\<rparr>) 3)
        = Done ()"
    by (simp add: deployment_notebook_def import_libraries_def create_model_def create_group_def
        register_model_def retrieve_model_def create_config_def create_the_endpoint_def
        test_endpoint_def clean_up_def all_calls_return_def and_then_def sdk_def print_line_def
        return_def try_except_def first_item_def numeral_3_eq_3 model_package_group_name_def)
  then show ?thesis by (simp add: all_calls_return_run listed_operations_def)
qed

text \<open>
  Claim C6, amended. Every run of the notebook that reaches its end issues exactly this
  sequence of calls: \<open>Session()\<close>, \<open>get_execution_role\<close>, \<open>default_bucket\<close>,
  \<open>upload_data\<close>, \<open>image_uris.retrieve\<close>, \<open>get_execution_role\<close>, create model,
  \<open>boto3.client\<close>, create model package group, register model package, list model
  packages, create endpoint config, create endpoint, \<open>boto3.client\<close>, invoke endpoint,
  delete endpoint, one or more \<open>describe_endpoint\<close>, delete endpoint config. The
  operations the claim lists are among them once each, in the order it gives.

  What is counted is a call into the SageMaker SDK or boto3 that the environment
  answers, by the name of its operation: \<open>Session()\<close> and the two \<open>boto3.client\<close>
  constructions are counted; the constructor \<open>Model(...)\<close> is part of the create model
  call, \<open>response['Body'].read().decode('utf-8')\<close> part of invoke endpoint, and
  \<open>print\<close>, \<open>time.sleep\<close> and the indexing of a response are no calls.

  The calls are direct but for three pieces of control logic: the \<open>try\<close> around
  \<open>create_model_package_group\<close>, the polling loop around \<open>describe_endpoint\<close>, and
  the \<open>try\<close> around \<open>delete_endpoint_config\<close>. A run that reaches its end holds no
  call that raised, except a call that raised what one of these three catches.
\<close>

theorem deployment_notebook_call_sequence:
  "fst (deployment_notebook env n) = Done () \<longrightarrow>
     (\<exists>m. map op_name (sdk_calls (snd (deployment_notebook env n))) =
        [''Session'', ''get_execution_role'', ''default_bucket'', ''upload_data'',
         ''image_uris.retrieve'', ''get_execution_role'', ''create model'', ''boto3.client'',
         ''create model package group'', ''register model package'', ''list model packages'',
         ''create endpoint config'', ''create endpoint'', ''boto3.client'', ''invoke endpoint'',
         ''delete endpoint'']
        @ replicate (Suc m) ''describe_endpoint'' @ [''delete endpoint config''])
     \<and> filter (\<lambda>x. x \<in> set listed_operations)
          (map op_name (sdk_calls (snd (deployment_notebook env n)))) = listed_operations
     \<and> (Call c (Some e) \<in> set (snd (deployment_notebook env n)) \<longrightarrow> caught c e)"
proof
  assume ended: "fst (deployment_notebook env n) = Done ()"
  from deployment_notebook_names[OF this] obtain m where
    m: "map op_name (sdk_calls (snd (deployment_notebook env n))) =
        [''Session'', ''get_execution_role'', ''default_bucket'', ''upload_data'',
         ''image_uris.retrieve'', ''get_execution_role'', ''create model'', ''boto3.client'',
         ''create model package group'', ''register model package'', ''list model packages'',
         ''create endpoint config'', ''create endpoint'', ''boto3.client'', ''invoke endpoint'',
         ''delete endpoint'']
        @ replicate (Suc m) ''describe_endpoint'' @ [''delete endpoint config'']"
    by blast
  have "filter (\<lambda>x. x \<in> set listed_operations)
          (map op_name (sdk_calls (snd (deployment_notebook env n)))) = listed_operations"
    unfolding m by (simp add: listed_operations_def)
  moreover have "Call c (Some e) \<in> set (snd (deployment_notebook env n)) \<longrightarrow> caught c e"
    using propagates_deployment_notebook[of env n] ended unfolding propagates_def by auto
  ultimately show "(\<exists>m. map op_name (sdk_calls (snd (deployment_notebook env n))) =
        [''Session'', ''get_execution_role'', ''default_bucket'', ''upload_data'',
         ''image_uris.retrieve'', ''get_execution_role'', ''create model'', ''boto3.client'',
         ''create model package group'', ''register model package'', ''list model packages'',
         ''create endpoint config'', ''create endpoint'', ''boto3.client'', ''invoke endpoint'',
         ''delete endpoint'']
        @ replicate (Suc m) ''describe_endpoint'' @ [''delete endpoint config''])
     \<and> filter (\<lambda>x. x \<in> set listed_operations)
          (map op_name (sdk_calls (snd (deployment_notebook env n)))) = listed_operations
     \<and> (Call c (Some e) \<in> set (snd (deployment_notebook env n)) \<longrightarrow> caught c e)"
    using m by blast
qed

theorem deployment_notebook_call_sequence_witness:
  "fst (deployment_notebook all_calls_return 3) = Done ()
   \<and> map op_name (sdk_calls (snd (deployment_notebook all_calls_return 3))) =
        [''Session'', ''get_execution_role'', ''default_bucket'', ''upload_data'',
         ''image_uris.retrieve'', ''get_execution_role'', ''create model'', ''boto3.client'',
         ''create model package group'', ''register model package'', ''list model packages'',
         ''create endpoint config'', ''create endpoint'', ''boto3.client'', ''invoke endpoint'',
         ''delete endpoint'', ''describe_endpoint'', ''describe_endpoint'',
         ''describe_endpoint'', ''delete endpoint config'']
   \<and> filter (\<lambda>x. x \<in> set listed_operations)
          (map op_name (sdk_calls (snd (deployment_notebook all_calls_return 3)))) =
        listed_operations
   \<and> Call (Describe_endpoint ''house-price-prediction-endpoint'')
        (Some (ClientError ''ValidationException''))
      \<in> set (snd (deployment_notebook all_calls_return 3))
   \<and> caught (Describe_endpoint ''house-price-prediction-endpoint'')
        (ClientError ''ValidationException'')"
  using deployment_notebook_call_sequence[of all_calls_return 3
      "Describe_endpoint ''house-price-prediction-endpoint''"
      "ClientError ''ValidationException''"]
  by (simp add: all_calls_return_run listed_operations_def)


section \<open>Properties of the processing script\<close>

subsection \<open>The row filter\<close>










lemma int_times_0_7_6: "int_times_0_7 6 = 4"
  by (simp add: int_times_0_7_def round_to_53_bits_def Let_def bit_length.simps)








subsection \<open>The imputation of means\<close>



lemma sample_fit_transform: "fit_transform sample_filtered = Inr sample_imputed"
  by (simp add: fit_transform_def select_dtypes_def present_def List.map_filter_def mean_def
      sample_filtered_def sample_imputed_def)



subsection \<open>The target encoding of the postcode\<close>














lemma sample_target_encode: "target_encode sample_imputed = Inr sample_encoded"
  by (simp add: target_encode_def groupby_mean_def series_map_def group_mean_def drop_columns_def
      assign_column_def present_def List.map_filter_def mean_def Let_def sample_imputed_def
      sample_encoded_def)




subsection \<open>The steps of the script\<close>

lemma sdk_Done: "fst (sdk c r) = Done a \<Longrightarrow> r = Inr a \<and> snd (sdk c r) = [Call c None]"
  by (cases r) (simp_all add: sdk_def)

lemma and_then_sdk_Inr:
  "and_then (sdk c (Inr a)) f = (fst (f a), Call c None # snd (f a))"
  by (simp add: and_then_def sdk_def split: prod.splits)

lemma ends_on_failure_sdk: "ends_on_failure (sdk c r)"
  by (cases r) (auto simp: ends_on_failure_def sdk_def)

lemma ends_on_failure_return: "ends_on_failure (return a)"
  by (simp add: ends_on_failure_def return_def)

lemma ends_on_failure_and_then:
  assumes "ends_on_failure m" and "\<And>a. ends_on_failure (f a)"
  shows "ends_on_failure (and_then m f)"
proof (cases m)
  case (Pair r tr)
  show ?thesis
  proof (cases r)
    case (Done a)
    obtain r' tr' where f: "f a = (r', tr')" by (cases "f a")
    from assms(1) Pair Done have no: "\<And>c e. Call c (Some e) \<notin> set tr"
      by (auto simp: ends_on_failure_def)
    from assms(2)[of a] f
    have "\<And>c e. Call c (Some e) \<in> set tr' \<Longrightarrow> r' = Raised e"
      by (auto simp: ends_on_failure_def)
    with no show ?thesis
      by (auto simp: ends_on_failure_def and_then_def Pair Done f)
  next
    case (Raised e)
    with assms(1) Pair show ?thesis by (simp add: ends_on_failure_def and_then_def)
  next
    case Running
    with assms(1) Pair show ?thesis by (simp add: ends_on_failure_def and_then_def)
  qed
qed

lemma ends_on_failure_script: "ends_on_failure (preprocessing_script env)"
  unfolding preprocessing_script_def
  by (intro ends_on_failure_and_then ends_on_failure_sdk ends_on_failure_return)

lemma script_stages:
  assumes "fst (preprocessing_script env) = Done out"
  shows "\<exists>df0 df1 df2 df3 df5 target_mean df6 df7.
       input_csv env = Inr df0
     \<and> drop_columns unnecessary_columns df0 = Inr df1
     \<and> to_datetime (parse_datetime env) ''saleEstimate_valueChange.saleDate'' df1 = Inr df2
     \<and> to_datetime (parse_datetime env) ''history_date'' df2 = Inr df3
     \<and> fit_transform (remove_sparse_rows df3) = Inr df5
     \<and> groupby_mean ''postcode'' ''saleEstimate_currentPrice'' df5 = Inr target_mean
     \<and> series_map ''Postcode_Encoded'' ''postcode'' target_mean df5 = Inr df6
     \<and> drop_columns [''postcode''] df6 = Inr df7
     \<and> out = get_dummies df7
     \<and> to_csv env out = Inr ()"
  using assms unfolding preprocessing_script_def
  apply (elim and_then_DoneE)
  apply (drule sdk_Done)+
  apply (simp add: return_def)
  done

lemma script_run:
  assumes "input_csv env = Inr df0"
    and "drop_columns unnecessary_columns df0 = Inr df1"
    and "to_datetime (parse_datetime env) ''saleEstimate_valueChange.saleDate'' df1 = Inr df2"
    and "to_datetime (parse_datetime env) ''history_date'' df2 = Inr df3"
    and "fit_transform (remove_sparse_rows df3) = Inr df5"
    and "groupby_mean ''postcode'' ''saleEstimate_currentPrice'' df5 = Inr target_mean"
    and "series_map ''Postcode_Encoded'' ''postcode'' target_mean df5 = Inr df6"
    and "drop_columns [''postcode''] df6 = Inr df7"
    and "to_csv env (get_dummies df7) = Inr ()"
  shows "preprocessing_script env =
    (Done (get_dummies df7),
     [Call (Read_csv ''/opt/ml/processing/input/data.csv'') None,
      Call (Df_drop unnecessary_columns) None,
      Call (To_datetime ''saleEstimate_valueChange.saleDate'') None,
      Call (To_datetime ''history_date'') None,
      Call (Dropna (int_times_0_7 (ncols df3))) None,
      Call (Select_dtypes ''number'') None,
      Call (Fit_transform (select_dtypes is_numeric (remove_sparse_rows df3))) None,
      Call (Groupby_mean ''postcode'' ''saleEstimate_currentPrice'') None,
      Call (Series_map ''Postcode_Encoded'' ''postcode'') None,
      Call (Df_drop [''postcode'']) None,
      Call (Select_dtypes ''object'') None,
      Call (Get_dummies (select_dtypes is_object df7)) None,
      Call (To_csv ''/opt/ml/processing/output/processed.csv'') None])"
  using assms by (simp add: preprocessing_script_def and_then_sdk_Inr return_def)

lemma script_call_names:
  assumes "fst (preprocessing_script env) = Done out"
  shows "map op_name (sdk_calls (snd (preprocessing_script env))) =
     [''read_csv'', ''drop columns'', ''convert dates'', ''convert dates'', ''drop sparse rows'',
      ''select columns'', ''impute means'', ''target-encode'', ''target-encode'',
      ''drop columns'', ''select columns'', ''one-hot encode'', ''to_csv'']"
proof -
  from script_stages[OF assms] obtain df0 df1 df2 df3 df5 target_mean df6 df7 where
    "input_csv env = Inr df0"
    "drop_columns unnecessary_columns df0 = Inr df1"
    "to_datetime (parse_datetime env) ''saleEstimate_valueChange.saleDate'' df1 = Inr df2"
    "to_datetime (parse_datetime env) ''history_date'' df2 = Inr df3"
    "fit_transform (remove_sparse_rows df3) = Inr df5"
    "groupby_mean ''postcode'' ''saleEstimate_currentPrice'' df5 = Inr target_mean"
    "series_map ''Postcode_Encoded'' ''postcode'' target_mean df5 = Inr df6"
    "drop_columns [''postcode''] df6 = Inr df7"
    "to_csv env (get_dummies df7) = Inr ()"
    by blast
  from script_run[OF this] show ?thesis by simp
qed

text \<open>The script on the sample, step by step.\<close>

lemma sample_drop_columns: "drop_columns unnecessary_columns sample_frame = Inr sample_dropped"
  by (simp add: drop_columns_def unnecessary_columns_def sample_frame_def sample_dropped_def)

lemma sample_to_datetime_sale:
  "to_datetime text_only ''saleEstimate_valueChange.saleDate'' sample_dropped =
     Inr sample_dated_once"
  by (simp add: to_datetime_def assign_column_def parse_all_def sample_dropped_def
      sample_dated_once_def)

lemma sample_to_datetime_history:
  "to_datetime text_only ''history_date'' sample_dated_once = Inr sample_dated"
  by (simp add: to_datetime_def assign_column_def parse_all_def sample_dated_once_def
      sample_dated_def)

lemma sample_remove_sparse_rows: "remove_sparse_rows sample_dated = sample_filtered"
proof -
  have "ncols sample_dated = 6" by (simp add: ncols_def sample_dated_def)
  then have "remove_sparse_rows sample_dated = dropna 4 sample_dated"
    by (simp only: remove_sparse_rows_def int_times_0_7_6)
  also have "\<dots> = sample_filtered"
    by (simp add: dropna_def nrows_def column_length_def row_def non_null_count_def Let_def
        sample_dated_def sample_filtered_def)
  finally show ?thesis .
qed

lemma sample_get_dummies: "get_dummies sample_encoded = sample_output"
  by (simp add: get_dummies_def dummies_def present_def List.map_filter_def sample_encoded_def
      sample_output_def less_eq_char_def less_char_def)

lemma sample_run:
  "preprocessing_script sample_container =
    (Done sample_output,
     [Call (Read_csv ''/opt/ml/processing/input/data.csv'') None,
      Call (Df_drop unnecessary_columns) None,
      Call (To_datetime ''saleEstimate_valueChange.saleDate'') None,
      Call (To_datetime ''history_date'') None,
      Call (Dropna 4) None,
      Call (Select_dtypes ''number'') None,
      Call (Fit_transform [''saleEstimate_currentPrice'', ''bedrooms'']) None,
      Call (Groupby_mean ''postcode'' ''saleEstimate_currentPrice'') None,
      Call (Series_map ''Postcode_Encoded'' ''postcode'') None,
      Call (Df_drop [''postcode'']) None,
      Call (Select_dtypes ''object'') None,
      Call (Get_dummies [''tenure'']) None,
      Call (To_csv ''/opt/ml/processing/output/processed.csv'') None])"
proof -
  have n: "ncols sample_dated = 6" by (simp add: ncols_def sample_dated_def)
  have numeric: "select_dtypes is_numeric sample_filtered =
      [''saleEstimate_currentPrice'', ''bedrooms'']"
    by (simp add: select_dtypes_def sample_filtered_def)
  obtain target_mean where
    g: "groupby_mean ''postcode'' ''saleEstimate_currentPrice'' sample_imputed = Inr target_mean"
    by (simp add: groupby_mean_def sample_imputed_def)
  obtain mapped where
    m: "series_map ''Postcode_Encoded'' ''postcode'' target_mean sample_imputed = Inr mapped"
    by (simp add: series_map_def sample_imputed_def)
  from sample_target_encode g m have d: "drop_columns [''postcode''] mapped = Inr sample_encoded"
    by (simp add: target_encode_def)
  have objects: "select_dtypes is_object sample_encoded = [''tenure'']"
    by (simp add: select_dtypes_def sample_encoded_def)
  have "preprocessing_script sample_container =
    (Done (get_dummies sample_encoded),
     [Call (Read_csv ''/opt/ml/processing/input/data.csv'') None,
      Call (Df_drop unnecessary_columns) None,
      Call (To_datetime ''saleEstimate_valueChange.saleDate'') None,
      Call (To_datetime ''history_date'') None,
      Call (Dropna (int_times_0_7 (ncols sample_dated))) None,
      Call (Select_dtypes ''number'') None,
      Call (Fit_transform (select_dtypes is_numeric (remove_sparse_rows sample_dated))) None,
      Call (Groupby_mean ''postcode'' ''saleEstimate_currentPrice'') None,
      Call (Series_map ''Postcode_Encoded'' ''postcode'') None,
      Call (Df_drop [''postcode'']) None,
      Call (Select_dtypes ''object'') None,
      Call (Get_dummies (select_dtypes is_object sample_encoded)) None,
      Call (To_csv ''/opt/ml/processing/output/processed.csv'') None])"
    by (rule script_run[where ?df0.0 = sample_frame and ?df1.0 = sample_dropped
          and ?df2.0 = sample_dated_once and ?df5.0 = sample_imputed
          and target_mean = target_mean and ?df6.0 = mapped])
       (simp_all add: sample_container_def sample_drop_columns sample_to_datetime_sale
          sample_to_datetime_history sample_remove_sparse_rows sample_fit_transform g m d)
  then show ?thesis
    by (simp only: n int_times_0_7_6 sample_remove_sparse_rows numeric objects sample_get_dummies)
qed

text \<open>
  Claim C3, as stated: the script performs exactly drop columns, impute means, one-hot
  encode and target-encode, with no other transformation step. It has two more: before
  the imputation it converts the two date columns with \<open>pd.to_datetime\<close> and drops the
  rows with too few values with \<open>dropna\<close> (the step claim C10 is about). On the sample
  the run completes, both steps are among its calls and neither is a step of the claim,
  and the row filter has taken one of the four rows away.
\<close>

theorem script_steps_counterexample:
  "fst (preprocessing_script sample_container) = Done sample_output
   \<and> transformations (snd (preprocessing_script sample_container)) =
       [''drop columns'', ''convert dates'', ''convert dates'', ''drop sparse rows'',
        ''impute means'', ''target-encode'', ''target-encode'', ''drop columns'',
        ''one-hot encode'']
   \<and> set (transformations (snd (preprocessing_script sample_container))) \<noteq> set claimed_steps
   \<and> ''convert dates'' \<notin> set claimed_steps
   \<and> ''drop sparse rows'' \<notin> set claimed_steps
   \<and> nrows sample_frame = 4
   \<and> nrows sample_output = 3"
proof -
  have "transformations (snd (preprocessing_script sample_container)) =
       [''drop columns'', ''convert dates'', ''convert dates'', ''drop sparse rows'',
        ''impute means'', ''target-encode'', ''target-encode'', ''drop columns'',
        ''one-hot encode'']"
    by (simp add: sample_run transformations_def)
  moreover have "''convert dates'' \<notin> set claimed_steps"
    and "''drop sparse rows'' \<notin> set claimed_steps"
    by (simp_all add: claimed_steps_def)
  moreover have "nrows sample_frame = 4" and "nrows sample_output = 3"
    by (simp_all add: nrows_def column_length_def sample_frame_def sample_output_def)
  ultimately show ?thesis
    by (auto simp: sample_run)
qed

text \<open>
  Claim C3, amended: the script is a straight line of library calls with no failure
  recovery of its own: a call that raises ends the script with that exception. A run
  that completes has made exactly these calls, in this order: read the input, drop the
  eight columns, convert the two date columns, drop the rows with too few values, select
  the numeric columns, impute means, group the price by postcode, map the postcode to
  its group's mean, drop the postcode column, select the object columns, one-hot encode,
  write the output. Its output is what these steps make of the input one after the other,
  and the four steps of the claim are among them.
\<close>

theorem script_is_straight_line:
  "ends_on_failure (preprocessing_script env)
   \<and> (fst (preprocessing_script env) = Done out \<longrightarrow>
        map op_name (sdk_calls (snd (preprocessing_script env))) =
          [''read_csv'', ''drop columns'', ''convert dates'', ''convert dates'',
           ''drop sparse rows'', ''select columns'', ''impute means'', ''target-encode'',
           ''target-encode'', ''drop columns'', ''select columns'', ''one-hot encode'',
           ''to_csv'']
        \<and> set claimed_steps \<subseteq> set (transformations (snd (preprocessing_script env)))
        \<and> (\<exists>df0 df1 df2 df3 df5 target_mean df6 df7.
             input_csv env = Inr df0
           \<and> drop_columns unnecessary_columns df0 = Inr df1
           \<and> to_datetime (parse_datetime env) ''saleEstimate_valueChange.saleDate'' df1 = Inr df2
           \<and> to_datetime (parse_datetime env) ''history_date'' df2 = Inr df3
           \<and> fit_transform (remove_sparse_rows df3) = Inr df5
           \<and> groupby_mean ''postcode'' ''saleEstimate_currentPrice'' df5 = Inr target_mean
           \<and> series_map ''Postcode_Encoded'' ''postcode'' target_mean df5 = Inr df6
           \<and> drop_columns [''postcode''] df6 = Inr df7
           \<and> out = get_dummies df7
           \<and> to_csv env out = Inr ()))"
proof (intro conjI impI)
  show "ends_on_failure (preprocessing_script env)" by (rule ends_on_failure_script)
next
  assume a: "fst (preprocessing_script env) = Done out"
  from script_call_names[OF a]
  show names: "map op_name (sdk_calls (snd (preprocessing_script env))) =
          [''read_csv'', ''drop columns'', ''convert dates'', ''convert dates'',
           ''drop sparse rows'', ''select columns'', ''impute means'', ''target-encode'',
           ''target-encode'', ''drop columns'', ''select columns'', ''one-hot encode'',
           ''to_csv'']" .
  show "set claimed_steps \<subseteq> set (transformations (snd (preprocessing_script env)))"
    unfolding transformations_def names by (simp add: claimed_steps_def)
  from script_stages[OF a]
  show "\<exists>df0 df1 df2 df3 df5 target_mean df6 df7.
             input_csv env = Inr df0
           \<and> drop_columns unnecessary_columns df0 = Inr df1
           \<and> to_datetime (parse_datetime env) ''saleEstimate_valueChange.saleDate'' df1 = Inr df2
           \<and> to_datetime (parse_datetime env) ''history_date'' df2 = Inr df3
           \<and> fit_transform (remove_sparse_rows df3) = Inr df5
           \<and> groupby_mean ''postcode'' ''saleEstimate_currentPrice'' df5 = Inr target_mean
           \<and> series_map ''Postcode_Encoded'' ''postcode'' target_mean df5 = Inr df6
           \<and> drop_columns [''postcode''] df6 = Inr df7
           \<and> out = get_dummies df7
           \<and> to_csv env out = Inr ()" .
qed

theorem script_is_straight_line_witness:
  "fst (preprocessing_script sample_container) = Done sample_output
   \<and> map op_name (sdk_calls (snd (preprocessing_script sample_container))) =
          [''read_csv'', ''drop columns'', ''convert dates'', ''convert dates'',
           ''drop sparse rows'', ''select columns'', ''impute means'', ''target-encode'',
           ''target-encode'', ''drop columns'', ''select columns'', ''one-hot encode'',
           ''to_csv'']
   \<and> Call (Df_drop unnecessary_columns) (Some (KeyError ''fullAddress''))
        \<in> set (snd (preprocessing_script (sample_container\<lparr>input_csv := Inr []\<rparr>)))
   \<and> fst (preprocessing_script (sample_container\<lparr>input_csv := Inr []\<rparr>)) =
        Raised (KeyError ''fullAddress'')"
proof -
  have 1: "fst (preprocessing_script sample_container) = Done sample_output"
    by (simp add: sample_run)
  have 2: "Call (Df_drop unnecessary_columns) (Some (KeyError ''fullAddress''))
        \<in> set (snd (preprocessing_script (sample_container\<lparr>input_csv := Inr []\<rparr>)))"
    by (simp add: preprocessing_script_def sample_container_def and_then_def sdk_def
        drop_columns_def unnecessary_columns_def)
  from 1 script_is_straight_line[of sample_container sample_output]
  have "map op_name (sdk_calls (snd (preprocessing_script sample_container))) =
          [''read_csv'', ''drop columns'', ''convert dates'', ''convert dates'',
           ''drop sparse rows'', ''select columns'', ''impute means'', ''target-encode'',
           ''target-encode'', ''drop columns'', ''select columns'', ''one-hot encode'',
           ''to_csv'']"
    by blast
  moreover from 2 script_is_straight_line[of "sample_container\<lparr>input_csv := Inr []\<rparr>"]
  have "fst (preprocessing_script (sample_container\<lparr>input_csv := Inr []\<rparr>)) =
        Raised (KeyError ''fullAddress'')"
    unfolding ends_on_failure_def by blast
  ultimately show ?thesis using 1 2 by blast
qed

end
